theory Spec2Isabelle
  imports Complex_Main "HOL-Library.AList"
begin

section \<open>The numbers of the program\<close>

text \<open>
  Every numeric value of \<^verbatim>\<open>CharacterModel.vue\<close> is a JavaScript \<^verbatim>\<open>number\<close>.
  The type below keeps the three special values apart from the finite ones, so that
  what the code does with \<^verbatim>\<open>NaN\<close> and the infinities can be traced. Finite
  arithmetic is exact (no rounding), and the sign of zero is not kept: a zero divisor
  counts as \<^verbatim>\<open>+0\<close>.
\<close>

datatype number = Fin real | NaN | PosInf | NegInf

fun isFinite :: "number \<Rightarrow> bool" where
  "isFinite (Fin x) = True"
| "isFinite NaN = False"
| "isFinite PosInf = False"
| "isFinite NegInf = False"

fun number_neg :: "number \<Rightarrow> number" where
  "number_neg (Fin a) = Fin (- a)"
| "number_neg NaN = NaN"
| "number_neg PosInf = NegInf"
| "number_neg NegInf = PosInf"

fun number_add :: "number \<Rightarrow> number \<Rightarrow> number" where
  "number_add (Fin a) (Fin b) = Fin (a + b)"
| "number_add NaN y = NaN"
| "number_add x NaN = NaN"
| "number_add PosInf NegInf = NaN"
| "number_add NegInf PosInf = NaN"
| "number_add PosInf y = PosInf"
| "number_add x PosInf = PosInf"
| "number_add NegInf y = NegInf"
| "number_add x NegInf = NegInf"

fun number_mul :: "number \<Rightarrow> number \<Rightarrow> number" where
  "number_mul (Fin a) (Fin b) = Fin (a * b)"
| "number_mul NaN y = NaN"
| "number_mul x NaN = NaN"
| "number_mul (Fin a) PosInf = (if a = 0 then NaN else if 0 < a then PosInf else NegInf)"
| "number_mul (Fin a) NegInf = (if a = 0 then NaN else if 0 < a then NegInf else PosInf)"
| "number_mul PosInf (Fin b) = (if b = 0 then NaN else if 0 < b then PosInf else NegInf)"
| "number_mul NegInf (Fin b) = (if b = 0 then NaN else if 0 < b then NegInf else PosInf)"
| "number_mul PosInf PosInf = PosInf"
| "number_mul PosInf NegInf = NegInf"
| "number_mul NegInf PosInf = NegInf"
| "number_mul NegInf NegInf = PosInf"

fun number_div :: "number \<Rightarrow> number \<Rightarrow> number" where
  "number_div (Fin a) (Fin b) =
     (if b = 0 then (if a = 0 then NaN else if 0 < a then PosInf else NegInf)
      else Fin (a / b))"
| "number_div NaN y = NaN"
| "number_div x NaN = NaN"
| "number_div (Fin a) PosInf = Fin 0"
| "number_div (Fin a) NegInf = Fin 0"
| "number_div PosInf (Fin b) = (if 0 \<le> b then PosInf else NegInf)"
| "number_div NegInf (Fin b) = (if 0 \<le> b then NegInf else PosInf)"
| "number_div PosInf y = NaN"
| "number_div NegInf y = NaN"

text \<open>The remainder operator \<^verbatim>\<open>%\<close>: the quotient is truncated toward zero, so the
  result has the sign of the dividend.\<close>

definition trunc :: "real \<Rightarrow> real" where
  "trunc x = (if 0 \<le> x then of_int \<lfloor>x\<rfloor> else of_int \<lceil>x\<rceil>)"

fun number_rem :: "number \<Rightarrow> number \<Rightarrow> number" where
  "number_rem (Fin a) (Fin b) = (if b = 0 then NaN else Fin (a - b * trunc (a / b)))"
| "number_rem NaN y = NaN"
| "number_rem x NaN = NaN"
| "number_rem PosInf y = NaN"
| "number_rem NegInf y = NaN"
| "number_rem (Fin a) PosInf = Fin a"
| "number_rem (Fin a) NegInf = Fin a"

fun number_less :: "number \<Rightarrow> number \<Rightarrow> bool" where
  "number_less (Fin a) (Fin b) = (a < b)"
| "number_less NaN y = False"
| "number_less x NaN = False"
| "number_less PosInf y = False"
| "number_less x NegInf = False"
| "number_less x PosInf = True"
| "number_less NegInf y = True"

fun number_less_eq :: "number \<Rightarrow> number \<Rightarrow> bool" where
  "number_less_eq (Fin a) (Fin b) = (a \<le> b)"
| "number_less_eq NaN y = False"
| "number_less_eq x NaN = False"
| "number_less_eq x PosInf = True"
| "number_less_eq NegInf y = True"
| "number_less_eq PosInf y = False"
| "number_less_eq x NegInf = False"

instantiation number :: "{plus, minus, uminus, times, inverse, ord}"
begin

definition plus_number :: "number \<Rightarrow> number \<Rightarrow> number" where
  "plus_number a b = number_add a b"

definition uminus_number :: "number \<Rightarrow> number" where
  "uminus_number a = number_neg a"

definition minus_number :: "number \<Rightarrow> number \<Rightarrow> number" where
  "minus_number a b = number_add a (number_neg b)"

definition times_number :: "number \<Rightarrow> number \<Rightarrow> number" where
  "times_number a b = number_mul a b"

definition divide_number :: "number \<Rightarrow> number \<Rightarrow> number" where
  "divide_number a b = number_div a b"

definition inverse_number :: "number \<Rightarrow> number" where
  "inverse_number a = number_div (Fin 1) a"

definition less_number :: "number \<Rightarrow> number \<Rightarrow> bool" where
  "less_number a b = number_less a b"

definition less_eq_number :: "number \<Rightarrow> number \<Rightarrow> bool" where
  "less_eq_number a b = number_less_eq a b"

instance ..

end

text \<open>\<^verbatim>\<open>Math.min\<close>, \<^verbatim>\<open>Math.max\<close>, \<^verbatim>\<open>Math.sin\<close> and \<^verbatim>\<open>Math.cos\<close>: each is
  \<^verbatim>\<open>NaN\<close> as soon as an argument is, and the trigonometric ones also at an infinity.\<close>

fun Math_min :: "number \<Rightarrow> number \<Rightarrow> number" where
  "Math_min NaN y = NaN"
| "Math_min x NaN = NaN"
| "Math_min x y = (if number_less y x then y else x)"

fun Math_max :: "number \<Rightarrow> number \<Rightarrow> number" where
  "Math_max NaN y = NaN"
| "Math_max x NaN = NaN"
| "Math_max x y = (if number_less x y then y else x)"

fun Math_sin :: "number \<Rightarrow> number" where
  "Math_sin (Fin x) = Fin (sin x)"
| "Math_sin NaN = NaN"
| "Math_sin PosInf = NaN"
| "Math_sin NegInf = NaN"

fun Math_cos :: "number \<Rightarrow> number" where
  "Math_cos (Fin x) = Fin (cos x)"
| "Math_cos NaN = NaN"
| "Math_cos PosInf = NaN"
| "Math_cos NegInf = NaN"

definition Math_PI :: number where
  "Math_PI = Fin pi"

text \<open>A number is falsy (as in \<^verbatim>\<open>!phrase.startTime\<close>) when it is zero or \<^verbatim>\<open>NaN\<close>.\<close>

fun truthy :: "number \<Rightarrow> bool" where
  "truthy (Fin x) = (x \<noteq> 0)"
| "truthy NaN = False"
| "truthy PosInf = True"
| "truthy NegInf = True"

section \<open>Data model\<close>

text \<open>
  \<^verbatim>\<open>Section\<close> and \<^verbatim>\<open>OneFrame\<close> start with the same five fields; they are the
  record \<open>Span\<close>, which both extend. Frame offsets are whole numbers (the engine counts
  frames), ticks are numbers.
\<close>

record Span =
  startFrame :: int
  frameLength :: int
  endFrame :: int
  startTick :: number
  endTick :: number

record Section = Span +
  expression :: string
  weight :: number
  phonemeString :: string
  noteNumber :: number

record OneFrame = Span +
  sections :: "Section list"

text \<open>Modelled from the spec: the declaration of \<^verbatim>\<open>FramePhoneme\<close> (imported from
  \<^verbatim>\<open>@/openapi\<close>) is not part of the component. The specification's phoneme sequence
  is a list of pairs of a phoneme symbol and a length in frames.\<close>

record FramePhoneme =
  phoneme :: string
  phonemeFrameLength :: int

definition EXP_CLOSE :: string where
  "EXP_CLOSE = ''__silent''"

definition vowelMap :: "(string \<times> string) list" where
  "vowelMap = [(''a'', ''aa''), (''i'', ''ih''), (''u'', ''ou''), (''e'', ''ee''), (''o'', ''oh'')]"

section \<open>Phoneme segmenter\<close>

text \<open>\<^verbatim>\<open>searchSections\<close>: the loop pushes one section per phoneme and carries
  \<^verbatim>\<open>currentFrame\<close>; here \<open>searchSections_from\<close> is the loop from a given
  \<^verbatim>\<open>currentFrame\<close>.\<close>

fun searchSections_from :: "int \<Rightarrow> FramePhoneme list \<Rightarrow> Section list" where
  "searchSections_from currentFrame [] = []"
| "searchSections_from currentFrame (p # ps) =
     \<lparr> startFrame = currentFrame,
       frameLength = phonemeFrameLength p,
       endFrame = currentFrame + phonemeFrameLength p,
       startTick = Fin 0,
       endTick = Fin 0,
       expression = '''',
       weight = Fin 1,
       phonemeString = phoneme p,
       noteNumber = Fin 60 \<rparr>
     # searchSections_from (currentFrame + phonemeFrameLength p) ps"

definition searchSections :: "FramePhoneme list \<Rightarrow> Section list" where
  "searchSections phonemes = searchSections_from 0 phonemes"

section \<open>Mouth weights\<close>

text \<open>A \<^verbatim>\<open>Map\<close> is an association list in insertion order; \<^verbatim>\<open>set\<close> is
  \<^const>\<open>AList.update\<close> (an existing key keeps its place, a new one goes last),
  \<^verbatim>\<open>get\<close> is \<^const>\<open>map_of\<close>.\<close>

definition has :: "('k \<times> 'v) list \<Rightarrow> 'k \<Rightarrow> bool" where
  "has m k = (map_of m k \<noteq> None)"

definition makeWeight :: "string \<Rightarrow> number \<Rightarrow> (string \<times> number) list" where
  "makeWeight target w =
     (let weights = [(''aa'', Fin 0), (''ih'', Fin 0), (''ou'', Fin 0), (''ee'', Fin 0), (''oh'', Fin 0)]
      in if has weights target then AList.update target w weights else weights)"

section \<open>Playhead lookup\<close>

text \<open>\<^verbatim>\<open>searchSection\<close> reads the module's \<^verbatim>\<open>frameMap\<close>; here the map is an
  argument. \<open>searchSection_sections\<close> is the inner loop over one timeline's sections,
  \<open>searchSection_frames\<close> the outer loop over \<^verbatim>\<open>frameMap.values()\<close>; \<open>None\<close>
  means the loop ran to its end without a \<^verbatim>\<open>return\<close>.\<close>

definition searchSection_result :: Section where
  "searchSection_result =
     \<lparr> startFrame = 0, frameLength = 0, endFrame = 0, startTick = Fin 0, endTick = Fin 0,
       expression = EXP_CLOSE, weight = Fin 1, phonemeString = ''pau'', noteNumber = Fin 60 \<rparr>"

fun searchSection_sections :: "number \<Rightarrow> Section list \<Rightarrow> Section option" where
  "searchSection_sections headTick [] = None"
| "searchSection_sections headTick (s # ss) =
     (if headTick < startTick s \<or> endTick s < headTick then searchSection_sections headTick ss
      else if phonemeString s = ''pau'' then searchSection_sections headTick ss
      else Some s)"

fun searchSection_frames :: "number \<Rightarrow> OneFrame list \<Rightarrow> Section option" where
  "searchSection_frames headTick [] = None"
| "searchSection_frames headTick (oneframe # rest) =
     (if headTick < startTick oneframe \<or> endTick oneframe < headTick
      then searchSection_frames headTick rest
      else (case searchSection_sections headTick (sections oneframe) of
              Some s \<Rightarrow> Some s
            | None \<Rightarrow> searchSection_frames headTick rest))"

definition searchSection :: "(string \<times> OneFrame) list \<Rightarrow> number \<Rightarrow> Section" where
  "searchSection frameMap headTick =
     (case searchSection_frames headTick (map snd frameMap) of
        Some s \<Rightarrow> s
      | None \<Rightarrow> searchSection_result)"

section \<open>Easing curves\<close>

definition degToRad :: "number \<Rightarrow> number" where
  "degToRad deg = (deg * Math_PI) / Fin 180"

record TwoPoint =
  x0 :: number
  y0 :: number
  x1 :: number
  y1 :: number

record EaseSection = TwoPoint +
  fn :: "TwoPoint \<Rightarrow> number \<Rightarrow> number"

definition twoPointEase :: "TwoPoint \<Rightarrow> number \<Rightarrow> number" where
  "twoPointEase this t =
     y0 this
     + (Fin 1 - Math_cos ((Math_PI * (t - x0 this)) / (x1 this - x0 this)))
       * Fin 0.5
       * (y1 this - y0 this)"

definition ease_sections :: "EaseSection list" where
  "ease_sections =
     [ \<lparr> x0 = Fin 0, y0 = Fin (-1), x1 = Fin 0.25, y1 = Fin (-1), fn = (\<lambda>_ _. Fin (-1)) \<rparr>,
       \<lparr> x0 = Fin 0.25, y0 = Fin (-1), x1 = Fin 0.5, y1 = Fin 1, fn = twoPointEase \<rparr>,
       \<lparr> x0 = Fin 0.5, y0 = Fin 1, x1 = Fin 0.75, y1 = Fin 1, fn = (\<lambda>_ _. Fin 1) \<rparr>,
       \<lparr> x0 = Fin 0.75, y0 = Fin 1, x1 = Fin 1, y1 = Fin (-1), fn = twoPointEase \<rparr> ]"

fun ease_loop :: "EaseSection list \<Rightarrow> number \<Rightarrow> number" where
  "ease_loop [] t = Fin 1"
| "ease_loop (section # rest) t =
     (if x0 section \<le> t \<and> t < x1 section then fn section (TwoPoint.truncate section) t
      else ease_loop rest t)"

definition ease :: "number \<Rightarrow> number" where
  "ease t = ease_loop ease_sections t"

definition cosEase :: "number \<Rightarrow> number" where
  "cosEase tt = (Fin 1 - Math_cos (tt * Math_PI)) * Fin 0.5"

section \<open>The store and the module state\<close>

text \<open>Modelled from the spec: the declarations of \<^verbatim>\<open>Phrase\<close>, of its tempo, singer
  and query, and of the store (in \<^verbatim>\<open>@/store\<close>) are not part of the component. The
  records keep the fields that \<^verbatim>\<open>render\<close> reads, which are the ones the
  specification lists for a phrase: singer and engine, query with phonemes and
  per-frame pitch, start time in seconds, tempo list and ticks per quarter note. An
  optional field is an \<open>option\<close> (\<open>None\<close> for \<^verbatim>\<open>undefined\<close>).\<close>

record Tempo =
  position :: number
  bpm :: number

record Singer =
  engineId :: string

record Query =
  f0 :: "number list"
  phonemes :: "FramePhoneme list"

record Phrase =
  singer :: "Singer option"
  query :: "Query option"
  startTime :: "number option"
  tempos :: "Tempo list"
  tpqn :: number

text \<open>\<open>engineManifests\<close> gives the \<^verbatim>\<open>frameRate\<close> of each engine.\<close>

record Store =
  phrases :: "(string \<times> Phrase) list"
  engineManifests :: "(string \<times> number) list"

text \<open>The two functions imported from \<^verbatim>\<open>@/sing/domain\<close> are not part of the
  component; they are parameters of the model. \<^verbatim>\<open>f0[startFrame]\<close> can be
  \<^verbatim>\<open>undefined\<close>, hence the \<open>option\<close>.\<close>

record Domain =
  secondToTick :: "number \<Rightarrow> Tempo option list \<Rightarrow> number \<Rightarrow> number"
  frequencyToNoteNumber :: "number option \<Rightarrow> number"

text \<open>The rendering context that \<^verbatim>\<open>render\<close> checks first: the canvas size and
  whether each of the four objects is defined.\<close>

record Graphics =
  canvasWidth :: "number option"
  canvasHeight :: "number option"
  renderer :: bool
  scene :: bool
  camera :: bool
  clock :: bool

text \<open>The module-level variables that \<^verbatim>\<open>render\<close> reads and writes.\<close>

type_synonym rotation = "number \<times> number \<times> number"

record State =
  frameMap :: "(string \<times> OneFrame) list"
  lastTpqn :: number
  lastEndTick :: number
  isEnd :: bool
  lastRot :: "rotation option"

definition initial_State :: State where
  "initial_State =
     \<lparr> frameMap = [], lastTpqn = Fin 480, lastEndTick = Fin 0, isEnd = False, lastRot = None \<rparr>"

datatype error = Error string | TypeError

text \<open>The constant \<^verbatim>\<open>config\<close>, field by field.\<close>

definition config_isZero :: bool where
  "config_isZero = False"

definition config_dir_y :: number where
  "config_dir_y = Fin (-20)"

definition config_isElbow :: bool where
  "config_isElbow = False"

definition config_motion_long_enable :: bool where
  "config_motion_long_enable = True"

definition config_motion_long_ratio :: number where
  "config_motion_long_ratio = Fin 1.5"

definition config_motion_long_expression :: string where
  "config_motion_long_expression = ''Hauu''"

definition config_motion_high_enable :: bool where
  "config_motion_high_enable = False"

definition config_motion_high_tone :: number where
  "config_motion_high_tone = Fin 70"

definition config_motion_high_ratio :: number where
  "config_motion_high_ratio = Fin 0.9"

definition config_motion_last_expression :: string where
  "config_motion_last_expression = ''Wink_L''"

definition conv :: "rotation \<Rightarrow> rotation" where
  "conv r = (case r of (x, y, z) \<Rightarrow> if \<not> config_isZero then (x, y, z) else (- x, y, - z))"

section \<open>render: pruning the cache\<close>

text \<open>Lines 229 to 241. \<open>maxEndTick\<close> is the loop that recomputes \<^verbatim>\<open>lastEndTick\<close>
  over \<^verbatim>\<open>frameMap.values()\<close>.\<close>

definition maxEndTick :: "(string \<times> OneFrame) list \<Rightarrow> number" where
  "maxEndTick frameMap' =
     foldl (\<lambda>acc oneframe. Math_max acc (endTick oneframe)) (Fin 0) (map snd frameMap')"

definition render_prune :: "(string \<times> Phrase) list \<Rightarrow> State \<Rightarrow> State" where
  "render_prune phrases' st =
     (let isDelete = list_ex (\<lambda>(phraseKey, _). \<not> has phrases' phraseKey) (frameMap st);
          kept = filter (\<lambda>(phraseKey, _). has phrases' phraseKey) (frameMap st);
          st' = st\<lparr>frameMap := kept\<rparr>
      in if isDelete then st'\<lparr>lastEndTick := maxEndTick kept\<rparr> else st')"

section \<open>render: building a timeline\<close>

definition consonantWeight :: number where
  "consonantWeight = Fin 0.7"

text \<open>The \<^verbatim>\<open>switch\<close> on \<^verbatim>\<open>section.phonemeString\<close> (lines 307 to 353);
  \<open>next\<close> is \<^verbatim>\<open>sections[i + 1]?.phonemeString\<close>. A string is truthy when it is
  not empty.\<close>

definition section_expression :: "string \<Rightarrow> string option \<Rightarrow> string \<times> number" where
  "section_expression ph next =
     (if ph \<in> set [''m'', ''b'', ''p'', ''my'', ''by'', ''py'', ''N'', ''v'', ''pau'']
        then (EXP_CLOSE, Fin 1)
      else if ph = ''w'' then (''ou'', consonantWeight)
      else if ph = ''a'' then (''aa'', Fin 1)
      else if ph = ''i'' then (''ih'', Fin 1)
      else if ph = ''u'' then (''ou'', Fin 1)
      else if ph = ''e'' then (''ee'', Fin 1)
      else if ph = ''o'' then (''oh'', Fin 1)
      else (case (case next of None \<Rightarrow> None | Some n \<Rightarrow> map_of vowelMap n) of
              Some nextExp \<Rightarrow>
                if nextExp \<noteq> [] then (nextExp, consonantWeight) else (''ou'', consonantWeight)
            | None \<Rightarrow> (''ou'', consonantWeight)))"

text \<open>What \<^verbatim>\<open>render\<close> has read from one ready phrase before it walks the sections.\<close>

record PhraseData =
  pd_startTime :: number
  pd_tempos :: "Tempo option list"
  pd_tpqn :: number
  pd_frameRate :: number
  pd_f0 :: "number list"

definition index :: "'a list \<Rightarrow> int \<Rightarrow> 'a option" where
  "index xs i = (if 0 \<le> i \<and> nat i < length xs then Some (xs ! nat i) else None)"

text \<open>The loop over \<^verbatim>\<open>sections\<close> (lines 287 to 357): it fills in each section and
  carries \<^verbatim>\<open>lastEndTick\<close>.\<close>

fun render_sections ::
  "Domain \<Rightarrow> PhraseData \<Rightarrow> number \<Rightarrow> Section list \<Rightarrow> Section list \<times> number" where
  "render_sections dmn pd lastEndTick' [] = ([], lastEndTick')"
| "render_sections dmn pd lastEndTick' (section # rest) =
     (let freq = index (pd_f0 pd) (startFrame section);
          noteNumber' = frequencyToNoteNumber dmn freq;
          startTick' = secondToTick dmn
             (pd_startTime pd + Fin (of_int (startFrame section)) / pd_frameRate pd)
             (pd_tempos pd) (pd_tpqn pd);
          endTick' = secondToTick dmn
             (pd_startTime pd + Fin (of_int (endFrame section)) / pd_frameRate pd)
             (pd_tempos pd) (pd_tpqn pd);
          lastEndTick2 = (if phonemeString section \<noteq> ''pau''
                          then Math_max lastEndTick' endTick' else lastEndTick');
          next = (case rest of [] \<Rightarrow> None | n # _ \<Rightarrow> Some (phonemeString n));
          (exp, weight') = section_expression (phonemeString section) next;
          section' = section\<lparr> noteNumber := noteNumber', startTick := startTick',
                              endTick := endTick', expression := exp, weight := weight' \<rparr>;
          (rest', lastEndTick3) = render_sections dmn pd lastEndTick2 rest
      in (section' # rest', lastEndTick3))"

text \<open>Lines 266 to 358: a phrase that has no timeline yet gets one. Reading
  \<^verbatim>\<open>sections[0]\<close> of an empty list throws a \<^verbatim>\<open>TypeError\<close>.\<close>

definition render_build ::
  "Domain \<Rightarrow> PhraseData \<Rightarrow> State \<Rightarrow> string \<Rightarrow> FramePhoneme list \<Rightarrow> error + State" where
  "render_build dmn pd st phraseKey phonemes' =
     (case searchSections phonemes' of
        [] \<Rightarrow> Inl TypeError
      | first # others \<Rightarrow>
          (let startFrame' = startFrame first;
               endFrame' = endFrame (last (first # others));
               (sections', lastEndTick') =
                  render_sections dmn pd (lastEndTick st) (first # others);
               oneframe =
                 \<lparr> startFrame = startFrame',
                   frameLength = 0,
                   endFrame = endFrame',
                   startTick = secondToTick dmn (pd_startTime pd) (pd_tempos pd) (pd_tpqn pd),
                   endTick = secondToTick dmn
                      (pd_startTime pd + Fin (of_int (endFrame' - startFrame')) / pd_frameRate pd)
                      (pd_tempos pd) (pd_tpqn pd),
                   sections = sections' \<rparr>
           in Inr (st\<lparr> frameMap := AList.update phraseKey oneframe (frameMap st),
                       lastEndTick := lastEndTick' \<rparr>)))"

text \<open>The body of the loop over \<^verbatim>\<open>phrases\<close> (lines 245 to 361). A phrase that is
  not ready is skipped; \<^verbatim>\<open>lastTpqn\<close> is set before the cache is looked at; reading
  \<^verbatim>\<open>frameRate\<close> of an unknown engine throws a \<^verbatim>\<open>TypeError\<close>.\<close>

definition first_tempo :: "Tempo list \<Rightarrow> Tempo option list" where
  "first_tempo ts = [(case ts of [] \<Rightarrow> None | t # _ \<Rightarrow> Some t)]"

definition render_phrase :: "Domain \<Rightarrow> Store \<Rightarrow> State \<Rightarrow> string \<times> Phrase \<Rightarrow> error + State" where
  "render_phrase dmn store st entry =
     (case (singer (snd entry), query (snd entry), startTime (snd entry)) of
        (Some singer', Some query', Some startTime') \<Rightarrow>
          (if \<not> truthy startTime' then Inr st
           else
             (let phraseKey = fst entry;
                  phrase = snd entry;
                  st1 = st\<lparr>lastTpqn := tpqn phrase\<rparr>
              in (case map_of (engineManifests store) (engineId singer') of
                    None \<Rightarrow> Inl TypeError
                  | Some frameRate \<Rightarrow>
                      (case map_of (frameMap st1) phraseKey of
                         Some oneframe \<Rightarrow> Inr st1
                       | None \<Rightarrow>
                           render_build dmn
                             \<lparr> pd_startTime = startTime',
                               pd_tempos = first_tempo (tempos phrase),
                               pd_tpqn = tpqn phrase,
                               pd_frameRate = frameRate,
                               pd_f0 = f0 query' \<rparr>
                             st1 phraseKey (phonemes query')))))
      | _ \<Rightarrow> Inr st)"

fun render_phrases :: "Domain \<Rightarrow> Store \<Rightarrow> State \<Rightarrow> (string \<times> Phrase) list \<Rightarrow> error + State" where
  "render_phrases dmn store st [] = Inr st"
| "render_phrases dmn store st (entry # rest) =
     (case render_phrase dmn store st entry of
        Inl err \<Rightarrow> Inl err
      | Inr st' \<Rightarrow> render_phrases dmn store st' rest)"

section \<open>render: motion\<close>

type_synonym pose = "(string \<times> rotation) list"

definition base_pose :: pose where
  "base_pose =
     [ (''leftUpperArm'', (Fin 0, Fin 0, - degToRad (Fin 50))),
       (''leftHand'', (Fin 0, - degToRad (Fin 10 + Fin 3 * Fin 0), degToRad (Fin 12 - Fin 2))),
       (''leftIndexProximal'', (Fin 0, Fin 0, degToRad (Fin 8))),
       (''leftMiddleProximal'', (Fin 0, Fin 0, degToRad (Fin 8))),
       (''leftRingProximal'', (Fin 0, Fin 0, degToRad (Fin 4))),
       (''rightUpperArm'', (Fin 0, Fin 0, degToRad (Fin 50))),
       (''rightHand'', (Fin 0, degToRad (Fin 10), - degToRad (Fin 12 - Fin 2))),
       (''rightIndexProximal'', (Fin 0, Fin 0, - degToRad (Fin 8))),
       (''rightMiddleProximal'', (Fin 0, Fin 0, - degToRad (Fin 8))),
       (''rightRingProximal'', (Fin 0, Fin 0, - degToRad (Fin 4))) ]"

text \<open>Lines 366 to 370: the sway phase \<^verbatim>\<open>mod\<close>, which advances with the bar and not
  with real time.\<close>

definition motion_mod :: "State \<Rightarrow> number \<Rightarrow> number" where
  "motion_mod st playheadTicks =
     (if isFinite playheadTicks
      then number_rem playheadTicks (lastTpqn st * Fin 4) / (lastTpqn st * Fin 4)
      else Fin 0)"

text \<open>Lines 371 to 387: the pose before the chest and the head are set.\<close>

definition motion_pose :: pose where
  "motion_pose =
     (let pose1 = (if config_isElbow
                   then AList.update ''leftLowerArm'' (degToRad (Fin 30), - degToRad (Fin 140), Fin 0)
                          (AList.update ''rightLowerArm'' (degToRad (Fin 30), degToRad (Fin 140), Fin 0)
                             base_pose)
                   else base_pose)
      in AList.update ''hips''
           (Fin 0, degToRad (config_dir_y + (if config_isZero then Fin 180 else Fin 0)), Fin 0)
           pose1)"

text \<open>Lines 388 and 389: the idle sway \<^verbatim>\<open>zrot\<close> and \<^verbatim>\<open>xrot\<close> at phase \<^verbatim>\<open>mod\<close>.\<close>

definition sway_zrot :: "number \<Rightarrow> number" where
  "sway_zrot mod' = degToRad (Fin 1.8 * ease mod')"

definition sway_xrot :: "number \<Rightarrow> number" where
  "sway_xrot mod' =
     degToRad (Fin 3 * (Fin 1 - Math_sin (degToRad (Fin 180 * number_rem (mod' * Fin 4) (Fin 1)))))"

text \<open>Lines 391 to 429: after the last end tick the rotation captured in
  \<^verbatim>\<open>lastRot\<close> decays; before it the start-up ease applies during the first quarter
  note. The result is \<^verbatim>\<open>isEnd\<close>, \<^verbatim>\<open>lastRot\<close>, \<^verbatim>\<open>xrot\<close> and \<^verbatim>\<open>zrot\<close>.\<close>

definition motion_ending ::
  "State \<Rightarrow> number \<Rightarrow> number \<Rightarrow> number \<Rightarrow> bool \<times> rotation option \<times> number \<times> number" where
  "motion_ending st playheadTicks xrot0 zrot0 =
     (let pastTick = playheadTicks - lastEndTick st;
          (isEnd1, lastRot1, xrot1, zrot1) =
            (if pastTick > Fin 0 then
               (if \<not> isEnd st then
                  let lastRot' = (case lastRot st of None \<Rightarrow> (xrot0, Fin 0, zrot0) | Some r \<Rightarrow> r);
                      t = Math_min (Fin 1) (pastTick / lastTpqn st);
                      zrot = snd (snd lastRot') * (Fin 1 - cosEase t);
                      xrot = fst lastRot' * (Fin 1 - cosEase t)
                  in if t = Fin 1 then (True, None, xrot, zrot)
                     else (False, Some lastRot', xrot, zrot)
                else (isEnd st, lastRot st, xrot0, zrot0))
             else
               let t = playheadTicks / lastTpqn st
               in (False, None, xrot0,
                   if t < Fin 1
                   then degToRad (Fin 1.8
                          * twoPointEase \<lparr> x0 = Fin 0, y0 = Fin 0, x1 = Fin 1, y1 = Fin (-1) \<rparr> t)
                   else zrot0))
      in if isEnd1 then (isEnd1, lastRot1, Fin 0, Fin 0) else (isEnd1, lastRot1, xrot1, zrot1))"

text \<open>Lines 366 to 431 together. The result is the updated state, the pose with the
  chest and the head set, and \<^verbatim>\<open>pastTick\<close>.\<close>

definition render_motion :: "State \<Rightarrow> number \<Rightarrow> State \<times> pose \<times> number" where
  "render_motion st playheadTicks =
     (let mod' = motion_mod st playheadTicks;
          (isEnd1, lastRot1, xrot, zrot) =
             motion_ending st playheadTicks (sway_xrot mod') (sway_zrot mod');
          pose3 = AList.update ''chest'' (Fin 0, Fin 0, zrot) motion_pose;
          pose4 = AList.update ''head'' (xrot, Fin 0, zrot * Fin 4) pose3
      in (st\<lparr> isEnd := isEnd1, lastRot := lastRot1 \<rparr>, pose4, playheadTicks - lastEndTick st))"

section \<open>render: expression weights\<close>

text \<open>Lines 434 to 480, run on the state that the motion part has left.\<close>

definition render_expression ::
  "State \<Rightarrow> number \<Rightarrow> number \<Rightarrow> pose \<Rightarrow> pose \<times> (string \<times> number) list" where
  "render_expression st playheadTicks pastTick pose0 =
     (let section = searchSection (frameMap st) playheadTicks;
          lip = expression section;
          weights0 = makeWeight (if isEnd st then EXP_CLOSE else lip) (weight section);
          len = endTick section - startTick section;
          isHauu1 = (config_motion_high_enable
                     \<and> len \<ge> lastTpqn st * config_motion_high_ratio
                     \<and> noteNumber section \<ge> config_motion_high_tone
                     \<and> lip \<noteq> EXP_CLOSE);
          isHauu2 = ((config_motion_long_enable
                      \<and> len > lastTpqn st * config_motion_long_ratio
                      \<and> lip \<noteq> EXP_CLOSE) \<or> isHauu1);
          hauuWeight = (if isHauu2 then Fin 1 else Fin 0);
          weights1 = AList.update config_motion_long_expression hauuWeight weights0;
          endAppend = Math_min (Fin 1) ((pastTick - lastTpqn st * Fin 3) / Fin 24);
          weights2 = AList.update config_motion_last_expression endAppend weights1;
          pose1 = (if endAppend > Fin 0
                   then AList.update ''head'' (Fin 0, Fin 0, degToRad (Fin (-5) * endAppend)) pose0
                   else pose0);
          isNeutral = (\<not> list_ex (\<lambda>(key, value). value > Fin 0) weights2);
          weights3 = (if isNeutral then AList.update ''neutral'' (Fin 1) weights2 else weights2)
      in (pose1, weights3))"

section \<open>render\<close>

text \<open>What one call hands to the rig and to the socket: the expression weights and the
  bone rotations after \<^verbatim>\<open>_conv\<close>. Drawing the scene, the clock, the page's data
  attributes and the socket itself are left out. An exception ends the call; the
  variables it had already assigned are not kept in the result.\<close>

record Output =
  out_weights :: "(string \<times> number) list"
  out_pose :: pose

definition defined_number :: "number option \<Rightarrow> bool" where
  "defined_number v = (case v of None \<Rightarrow> False | Some n \<Rightarrow> truthy n)"

definition render ::
  "Domain \<Rightarrow> Graphics \<Rightarrow> Store \<Rightarrow> State \<Rightarrow> number \<Rightarrow> error + State \<times> Output" where
  "render dmn gfx store st playheadTicks =
     (if \<not> defined_number (canvasWidth gfx) then Inl (Error ''canvasWidth is undefined.'')
      else if \<not> defined_number (canvasHeight gfx) then Inl (Error ''canvasHeight is undefined.'')
      else if \<not> renderer gfx then Inl (Error ''renderer is undefined.'')
      else if \<not> scene gfx then Inl (Error ''scene is undefined.'')
      else if \<not> camera gfx then Inl (Error ''camera is undefined.'')
      else if \<not> clock gfx then Inl (Error ''clock is undefined.'')
      else
        case render_phrases dmn store (render_prune (phrases store) st) (phrases store) of
          Inl err \<Rightarrow> Inl err
        | Inr st2 \<Rightarrow>
            (case render_motion st2 playheadTicks of (st3, pose0, pastTick) \<Rightarrow>
             case render_expression st3 playheadTicks pastTick pose0 of (pose1, weights) \<Rightarrow>
               Inr (st3, \<lparr> out_weights = weights,
                           out_pose = map (\<lambda>(key, value). (key, conv value)) pose1 \<rparr>)))"

text \<open>The part of one call's result that goes to the expression manager, and the part
  that goes to the bones.\<close>

definition render_weights ::
  "Domain \<Rightarrow> Graphics \<Rightarrow> Store \<Rightarrow> State \<Rightarrow> number \<Rightarrow> error + (string \<times> number) list" where
  "render_weights dmn gfx store st playheadTicks =
     (case render dmn gfx store st playheadTicks of
        Inl err \<Rightarrow> Inl err
      | Inr result \<Rightarrow> Inr (out_weights (snd result)))"

definition render_pose :: "Domain \<Rightarrow> Graphics \<Rightarrow> Store \<Rightarrow> State \<Rightarrow> number \<Rightarrow> error + pose" where
  "render_pose dmn gfx store st playheadTicks =
     (case render dmn gfx store st playheadTicks of
        Inl err \<Rightarrow> Inl err
      | Inr result \<Rightarrow> Inr (out_pose (snd result)))"

text \<open>The scale of the ending decay as the specification gives it: one minus the cosine
  ease of \<open>min 1 (pastTick / lastTpqn)\<close>.\<close>

definition decay_scale :: "real \<Rightarrow> real \<Rightarrow> real" where
  "decay_scale pastTick q = 1 - (1 - cos (min 1 (pastTick / q) * pi)) * 0.5"

section \<open>Reference definitions\<close>

text \<open>The rules of the expression mapper as the specification lists them: the closure
  class, then \<open>w\<close>, then the five vowels, then the lookahead to the next phoneme.\<close>

definition closure_class :: "string set" where
  "closure_class = {''m'', ''b'', ''p'', ''my'', ''by'', ''py'', ''N'', ''v'', ''pau''}"

definition vowel_shape :: "string \<Rightarrow> string option" where
  "vowel_shape symbol =
     (if symbol = ''a'' then Some ''aa''
      else if symbol = ''i'' then Some ''ih''
      else if symbol = ''u'' then Some ''ou''
      else if symbol = ''e'' then Some ''ee''
      else if symbol = ''o'' then Some ''oh''
      else None)"

definition mapper_spec :: "string \<Rightarrow> string option \<Rightarrow> string \<times> number" where
  "mapper_spec symbol next =
     (if symbol \<in> closure_class then (''__silent'', Fin 1)
      else if symbol = ''w'' then (''ou'', Fin 0.7)
      else (case vowel_shape symbol of
              Some shape \<Rightarrow> (shape, Fin 1)
            | None \<Rightarrow>
                (case next of
                   None \<Rightarrow> (''ou'', Fin 0.7)
                 | Some n \<Rightarrow>
                     (case vowel_shape n of
                        Some shape \<Rightarrow> (shape, Fin 0.7)
                      | None \<Rightarrow> (''ou'', Fin 0.7)))))"

text \<open>The phoneme after position \<open>i\<close>, if there is one.\<close>

definition next_phoneme :: "FramePhoneme list \<Rightarrow> nat \<Rightarrow> string option" where
  "next_phoneme ps i = (if Suc i < length ps then Some (phoneme (ps ! Suc i)) else None)"


text \<open>In a well-formed cache every section lies within the tick bounds of its timeline.\<close>

definition cache_wf :: "(string \<times> OneFrame) list \<Rightarrow> bool" where
  "cache_wf frameMap' \<longleftrightarrow>
     (\<forall>oneframe \<in> set (map snd frameMap'). \<forall>s \<in> set (sections oneframe).
        startTick oneframe \<le> startTick s \<and> endTick s \<le> endTick oneframe)"


section \<open>Sample inputs\<close>

text \<open>Modelled from the spec: \<^verbatim>\<open>secondToTick\<close> and \<^verbatim>\<open>frequencyToNoteNumber\<close> belong to
  \<^verbatim>\<open>@/sing/domain\<close>, which is not part of this component; the specification asks of the
  first only that it is pure and monotonic. The sample converts at a fixed 120 beats
  per minute (two quarter notes per second) and gives every frequency the note 60. It is
  used for concrete runs only.\<close>

definition sample_Domain :: Domain where
  "sample_Domain =
     \<lparr> secondToTick = (\<lambda>seconds tempos' tpqn'. seconds * Fin 2 * tpqn'),
       frequencyToNoteNumber = (\<lambda>freq. Fin 60) \<rparr>"

definition ready_Graphics :: Graphics where
  "ready_Graphics =
     \<lparr> canvasWidth = Some (Fin 800), canvasHeight = Some (Fin 600),
       renderer = True, scene = True, camera = True, clock = True \<rparr>"

text \<open>A phrase that starts after one second and sings \<open>a\<close> for 100 frames, followed by
  50 frames of silence, on an engine with 100 frames per second.\<close>

definition sample_Phrase :: Phrase where
  "sample_Phrase =
     \<lparr> singer = Some \<lparr> engineId = ''engine'' \<rparr>,
       query = Some \<lparr> f0 = [], phonemes = [\<lparr> phoneme = ''a'', phonemeFrameLength = 100 \<rparr>,
                                          \<lparr> phoneme = ''pau'', phonemeFrameLength = 50 \<rparr>] \<rparr>,
       startTime = Some (Fin 1),
       tempos = [\<lparr> position = Fin 0, bpm = Fin 120 \<rparr>],
       tpqn = Fin 480 \<rparr>"

definition sample_Store :: Store where
  "sample_Store =
     \<lparr> phrases = [(''phrase-1'', sample_Phrase)], engineManifests = [(''engine'', Fin 100)] \<rparr>"

definition empty_Store :: Store where
  "empty_Store = \<lparr> phrases = [], engineManifests = [] \<rparr>"

definition sample_PhraseData :: PhraseData where
  "sample_PhraseData =
     \<lparr> pd_startTime = Fin 1, pd_tempos = [None], pd_tpqn = Fin 480,
       pd_frameRate = Fin 100, pd_f0 = [] \<rparr>"

text \<open>A cache with two timelines. In the first, a silence is followed by \<open>a\<close>, and both
  sections contain tick 1920.\<close>

definition sample_frameMap :: "(string \<times> OneFrame) list" where
  "sample_frameMap =
     [ (''phrase-0'',
        \<lparr> startFrame = 0, frameLength = 0, endFrame = 200,
          startTick = Fin 960, endTick = Fin 2880,
          sections =
            [ \<lparr> startFrame = 0, frameLength = 100, endFrame = 100,
                startTick = Fin 960, endTick = Fin 1920,
                expression = ''__silent'', weight = Fin 1,
                phonemeString = ''pau'', noteNumber = Fin 60 \<rparr>,
              \<lparr> startFrame = 100, frameLength = 100, endFrame = 200,
                startTick = Fin 1920, endTick = Fin 2880,
                expression = ''aa'', weight = Fin 1,
                phonemeString = ''a'', noteNumber = Fin 60 \<rparr> ] \<rparr>),
       (''phrase-9'',
        \<lparr> startFrame = 0, frameLength = 0, endFrame = 100,
          startTick = Fin 3840, endTick = Fin 4800,
          sections =
            [ \<lparr> startFrame = 0, frameLength = 100, endFrame = 100,
                startTick = Fin 3840, endTick = Fin 4800,
                expression = ''oh'', weight = Fin 1,
                phonemeString = ''o'', noteNumber = Fin 60 \<rparr> ] \<rparr>) ]"

definition sample_State :: State where
  "sample_State =
     \<lparr> frameMap = sample_frameMap, lastTpqn = Fin 480, lastEndTick = Fin 4800,
       isEnd = False, lastRot = None \<rparr>"

text \<open>The timeline that \<^verbatim>\<open>render\<close> builds for \<open>sample_Phrase\<close>, and the state after
  that phrase has been processed from the initial state.\<close>

definition sample_built_frame :: OneFrame where
  "sample_built_frame =
     \<lparr> startFrame = 0, frameLength = 0, endFrame = 150,
       startTick = Fin 960, endTick = Fin 2400,
       sections =
         [ \<lparr> startFrame = 0, frameLength = 100, endFrame = 100,
             startTick = Fin 960, endTick = Fin 1920,
             expression = ''aa'', weight = Fin 1,
             phonemeString = ''a'', noteNumber = Fin 60 \<rparr>,
           \<lparr> startFrame = 100, frameLength = 50, endFrame = 150,
             startTick = Fin 1920, endTick = Fin 2400,
             expression = ''__silent'', weight = Fin 1,
             phonemeString = ''pau'', noteNumber = Fin 60 \<rparr> ] \<rparr>"

definition sample_built_State :: State where
  "sample_built_State =
     \<lparr> frameMap = [(''phrase-1'', sample_built_frame)], lastTpqn = Fin 480,
       lastEndTick = Fin 1920, isEnd = False, lastRot = None \<rparr>"

text \<open>A store in which \<open>phrase-0\<close>, already in \<open>sample_frameMap\<close>, comes with a later
  snapshot of different content.\<close>

definition later_Store :: Store where
  "later_Store =
     \<lparr> phrases = [(''phrase-0'', sample_Phrase\<lparr> tpqn := Fin 960 \<rparr>)],
       engineManifests = [(''engine'', Fin 100)] \<rparr>"

text \<open>A state in the middle of the ending decay: the last end tick is 1920 and the rotation
  captured when the decay began is in \<^verbatim>\<open>lastRot\<close>.\<close>

definition decaying_State :: State where
  "decaying_State =
     \<lparr> frameMap = [], lastTpqn = Fin 480, lastEndTick = Fin 1920, isEnd = False,
       lastRot = Some (Fin 0.05, Fin 0, Fin (- 0.03)) \<rparr>"

section \<open>Arithmetic on finite numbers\<close>

lemma Fin_plus [simp]: "Fin a + Fin b = Fin (a + b)"
  by (simp add: plus_number_def)

lemma Fin_minus [simp]: "Fin a - Fin b = Fin (a - b)"
  by (simp add: minus_number_def)

lemma Fin_uminus [simp]: "- Fin a = Fin (- a)"
  by (simp add: uminus_number_def)

lemma Fin_times [simp]: "Fin a * Fin b = Fin (a * b)"
  by (simp add: times_number_def)

lemma Fin_divide [simp]: "b \<noteq> 0 \<Longrightarrow> Fin a / Fin b = Fin (a / b)"
  by (simp add: divide_number_def)

lemma Fin_less [simp]: "Fin a < Fin b \<longleftrightarrow> a < b"
  by (simp add: less_number_def)

lemma Fin_less_eq [simp]: "Fin a \<le> Fin b \<longleftrightarrow> a \<le> b"
  by (simp add: less_eq_number_def)

lemma Math_min_Fin [simp]: "Math_min (Fin a) (Fin b) = Fin (min a b)"
  by (simp add: min_def)

lemma Math_max_Fin [simp]: "Math_max (Fin a) (Fin b) = Fin (max a b)"
  by (simp add: max_def)

section \<open>The segmenter\<close>

lemma searchSections_from_length [simp]: "length (searchSections_from c ps) = length ps"
  by (induction ps arbitrary: c) simp_all

lemma searchSections_from_nth:
  "i < length ps \<Longrightarrow>
     frameLength (searchSections_from c ps ! i) = phonemeFrameLength (ps ! i)
     \<and> phonemeString (searchSections_from c ps ! i) = phoneme (ps ! i)
     \<and> endFrame (searchSections_from c ps ! i)
         = startFrame (searchSections_from c ps ! i) + frameLength (searchSections_from c ps ! i)"
proof (induction ps arbitrary: c i)
  case Nil
  then show ?case by simp
next
  case (Cons p ps)
  show ?case
  proof (cases i)
    case 0
    then show ?thesis by simp
  next
    case (Suc j)
    with Cons.prems have "j < length ps" by simp
    from Cons.IH [OF this, of "c + phonemeFrameLength p"] Suc show ?thesis by simp
  qed
qed

lemma searchSections_from_hd:
  "ps \<noteq> [] \<Longrightarrow> startFrame (searchSections_from c ps ! 0) = c"
  by (cases ps) simp_all

lemma searchSections_from_adjacent:
  "Suc i < length ps \<Longrightarrow>
     endFrame (searchSections_from c ps ! i) = startFrame (searchSections_from c ps ! Suc i)"
proof (induction ps arbitrary: c i)
  case Nil
  then show ?case by simp
next
  case (Cons p ps)
  show ?case
  proof (cases i)
    case 0
    with Cons.prems have "ps \<noteq> []" by auto
    with 0 show ?thesis by (simp add: searchSections_from_hd)
  next
    case (Suc j)
    with Cons.prems have "Suc j < length ps" by simp
    from Cons.IH [OF this, of "c + phonemeFrameLength p"] Suc show ?thesis by simp
  qed
qed

text \<open>
  Claim C6. For every phoneme list, \<^verbatim>\<open>searchSections\<close> returns one section per
  phoneme; the first section starts at frame 0; each section ends where the next one
  starts; each section has the frame length of its phoneme, whatever it is (a length of
  zero is passed through), and ends at its start plus that length.
\<close>

theorem searchSections_running_sum:
  "length (searchSections ps) = length ps
   \<and> (ps \<noteq> [] \<longrightarrow> startFrame (searchSections ps ! 0) = 0)
   \<and> (\<forall>i. Suc i < length ps \<longrightarrow>
          endFrame (searchSections ps ! i) = startFrame (searchSections ps ! Suc i))
   \<and> (\<forall>i < length ps.
          frameLength (searchSections ps ! i) = phonemeFrameLength (ps ! i)
          \<and> endFrame (searchSections ps ! i)
              = startFrame (searchSections ps ! i) + frameLength (searchSections ps ! i))"
  unfolding searchSections_def
  using searchSections_from_nth [of _ ps 0] searchSections_from_adjacent [of _ ps 0]
    searchSections_from_hd [of ps 0]
  by simp

theorem searchSections_running_sum_witness:
  "length (searchSections [\<lparr>phoneme = ''k'', phonemeFrameLength = 3\<rparr>,
                           \<lparr>phoneme = ''a'', phonemeFrameLength = 0\<rparr>]) = 2
   \<and> startFrame (searchSections [\<lparr>phoneme = ''k'', phonemeFrameLength = 3\<rparr>,
                                 \<lparr>phoneme = ''a'', phonemeFrameLength = 0\<rparr>] ! 0) = 0
   \<and> endFrame (searchSections [\<lparr>phoneme = ''k'', phonemeFrameLength = 3\<rparr>,
                               \<lparr>phoneme = ''a'', phonemeFrameLength = 0\<rparr>] ! 0)
       = startFrame (searchSections [\<lparr>phoneme = ''k'', phonemeFrameLength = 3\<rparr>,
                                     \<lparr>phoneme = ''a'', phonemeFrameLength = 0\<rparr>] ! Suc 0)
   \<and> frameLength (searchSections [\<lparr>phoneme = ''k'', phonemeFrameLength = 3\<rparr>,
                                  \<lparr>phoneme = ''a'', phonemeFrameLength = 0\<rparr>] ! Suc 0) = 0"
proof -
  let ?ps = "[\<lparr>phoneme = ''k'', phonemeFrameLength = 3\<rparr>,
              \<lparr>phoneme = ''a'', phonemeFrameLength = 0\<rparr>]"
  have ne: "?ps \<noteq> []" and two: "Suc 0 < length ?ps"
    by simp_all
  from searchSections_running_sum [of ?ps] ne two show ?thesis
    by (auto simp del: One_nat_def)
qed

section \<open>The mouth weights\<close>

text \<open>
  Claim C10. For every target and weight, the keys of \<^verbatim>\<open>makeWeight\<close>'s map are
  the five vowel shapes, in that order. When the target is one of them its entry is the
  given weight and the other four are 0; otherwise all five are 0. The silence tag is
  never a key, and asking for it gives the five zeros.
\<close>

theorem makeWeight_five_keys:
  "map fst (makeWeight target w) = [''aa'', ''ih'', ''ou'', ''ee'', ''oh'']
   \<and> (target \<in> set [''aa'', ''ih'', ''ou'', ''ee'', ''oh''] \<longrightarrow>
        map_of (makeWeight target w) target = Some w
        \<and> (\<forall>k \<in> set [''aa'', ''ih'', ''ou'', ''ee'', ''oh''].
              k \<noteq> target \<longrightarrow> map_of (makeWeight target w) k = Some (Fin 0)))
   \<and> (target \<notin> set [''aa'', ''ih'', ''ou'', ''ee'', ''oh''] \<longrightarrow>
        (\<forall>k \<in> set [''aa'', ''ih'', ''ou'', ''ee'', ''oh''].
              map_of (makeWeight target w) k = Some (Fin 0)))
   \<and> map_of (makeWeight target w) EXP_CLOSE = None
   \<and> makeWeight EXP_CLOSE w
       = [(''aa'', Fin 0), (''ih'', Fin 0), (''ou'', Fin 0), (''ee'', Fin 0), (''oh'', Fin 0)]"
  by (auto simp: makeWeight_def has_def EXP_CLOSE_def)

theorem makeWeight_five_keys_witness:
  "''ih'' \<in> set [''aa'', ''ih'', ''ou'', ''ee'', ''oh'']
   \<and> map_of (makeWeight ''ih'' (Fin 0.7)) ''ih'' = Some (Fin 0.7)
   \<and> map_of (makeWeight ''ih'' (Fin 0.7)) ''oh'' = Some (Fin 0)
   \<and> ''__silent'' \<notin> set [''aa'', ''ih'', ''ou'', ''ee'', ''oh'']
   \<and> map_of (makeWeight ''__silent'' (Fin 1)) ''aa'' = Some (Fin 0)"
  using makeWeight_five_keys [of "''ih''" "Fin 0.7"] makeWeight_five_keys [of "''__silent''" "Fin 1"]
  by simp

section \<open>The order of numbers\<close>

lemma number_le_trans: "a \<le> b \<Longrightarrow> b \<le> c \<Longrightarrow> a \<le> (c :: number)"
  unfolding less_eq_number_def
  by (cases a; cases b; cases c) simp_all

lemma number_le_not_NaN: "a \<le> (b :: number) \<Longrightarrow> a \<noteq> NaN \<and> b \<noteq> NaN"
  unfolding less_eq_number_def
  by (cases a; cases b) simp_all

lemma number_le_refl: "a \<noteq> NaN \<Longrightarrow> a \<le> (a :: number)"
  unfolding less_eq_number_def
  by (cases a) simp_all

lemma Math_max_cases:
  "a \<noteq> NaN \<Longrightarrow> b \<noteq> NaN \<Longrightarrow>
     (Math_max a b = a \<or> Math_max a b = b) \<and> a \<le> Math_max a b \<and> b \<le> Math_max a b
     \<and> Math_max a b \<noteq> NaN"
  unfolding less_eq_number_def
  by (cases a; cases b) simp_all

lemma foldl_Math_max:
  "acc \<noteq> NaN \<Longrightarrow> \<forall>x \<in> set xs. x \<noteq> NaN \<Longrightarrow>
     (foldl Math_max acc xs = acc \<or> foldl Math_max acc xs \<in> set xs)
     \<and> acc \<le> foldl Math_max acc xs
     \<and> (\<forall>x \<in> set xs. x \<le> foldl Math_max acc xs)"
proof (induction xs arbitrary: acc)
  case Nil
  then show ?case by (simp add: number_le_refl)
next
  case (Cons x xs)
  from Cons.prems have x: "x \<noteq> NaN" and xs: "\<forall>y \<in> set xs. y \<noteq> NaN" by simp_all
  note m = Math_max_cases [OF Cons.prems(1) x]
  from m have "Math_max acc x \<noteq> NaN" by simp
  note ih = Cons.IH [OF this xs]
  from ih m show ?case
    by (auto intro: number_le_trans)
qed

section \<open>The expression mapper\<close>

lemma section_expression_mapper_spec: "section_expression ph nxt = mapper_spec ph nxt"
  by (auto simp: section_expression_def mapper_spec_def closure_class_def vowel_shape_def
      vowelMap_def EXP_CLOSE_def consonantWeight_def split: option.splits)

lemma render_sections_length [simp]:
  "length (fst (render_sections dmn pd l ss)) = length ss"
  by (induction ss arbitrary: l) (simp_all add: Let_def case_prod_beta)

lemma render_sections_nth:
  "i < length ss \<Longrightarrow>
     (expression (fst (render_sections dmn pd l ss) ! i),
      weight (fst (render_sections dmn pd l ss) ! i))
       = section_expression (phonemeString (ss ! i))
           (if Suc i < length ss then Some (phonemeString (ss ! Suc i)) else None)
     \<and> phonemeString (fst (render_sections dmn pd l ss) ! i) = phonemeString (ss ! i)"
proof (induction ss arbitrary: l i)
  case Nil
  then show ?case by simp
next
  case (Cons s ss)
  show ?case
  proof (cases i)
    case 0
    then show ?thesis
      by (cases ss) (simp_all add: Let_def case_prod_beta)
  next
    case (Suc j)
    with Cons.prems have j: "j < length ss" by simp
    from Cons.IH [OF j] Suc show ?thesis
      by (simp add: Let_def case_prod_beta)
  qed
qed

text \<open>
  Claim C4. In a timeline built from any phoneme list, the expression and weight of
  the section at each position are the ones the mapper rules give for its phoneme and
  the phoneme after it: the closure class gives the silence expression with weight 1,
  \<open>w\<close> gives \<open>ou\<close> with 0.7, the five vowels give their shapes with weight 1, and
  every other symbol gives 0.7 with the shape of the next phoneme when that is a vowel
  and \<open>ou\<close> otherwise. In particular \<open>a k i pau\<close> gives \<open>aa ih ih\<close> and silence with
  weights 1, 0.7, 1, 1, and a lone \<open>z\<close> gives \<open>ou\<close> with 0.7.
\<close>

theorem expression_mapper_rules:
  "(i < length ps \<longrightarrow>
      (expression (fst (render_sections dmn pd l (searchSections ps)) ! i),
       weight (fst (render_sections dmn pd l (searchSections ps)) ! i))
        = mapper_spec (phoneme (ps ! i)) (next_phoneme ps i))
   \<and> map (\<lambda>s. (expression s, weight s))
        (fst (render_sections dmn pd l (searchSections
           [\<lparr>phoneme = ''a'', phonemeFrameLength = n1\<rparr>,
            \<lparr>phoneme = ''k'', phonemeFrameLength = n2\<rparr>,
            \<lparr>phoneme = ''i'', phonemeFrameLength = n3\<rparr>,
            \<lparr>phoneme = ''pau'', phonemeFrameLength = n4\<rparr>])))
       = [(''aa'', Fin 1), (''ih'', Fin 0.7), (''ih'', Fin 1), (''__silent'', Fin 1)]
   \<and> map (\<lambda>s. (expression s, weight s))
        (fst (render_sections dmn pd l (searchSections
           [\<lparr>phoneme = ''z'', phonemeFrameLength = n1\<rparr>])))
       = [(''ou'', Fin 0.7)]"
proof (intro conjI impI)
  assume i: "i < length ps"
  then have i': "i < length (searchSections ps)"
    by (simp add: searchSections_def)
  have ph: "phonemeString (searchSections ps ! i) = phoneme (ps ! i)"
    using i by (simp add: searchSections_def searchSections_from_nth)
  have "(if Suc i < length (searchSections ps)
         then Some (phonemeString (searchSections ps ! Suc i)) else None) = next_phoneme ps i"
    by (simp add: next_phoneme_def searchSections_def searchSections_from_nth)
  with render_sections_nth [OF i', of dmn pd l] ph
  show "(expression (fst (render_sections dmn pd l (searchSections ps)) ! i),
       weight (fst (render_sections dmn pd l (searchSections ps)) ! i))
        = mapper_spec (phoneme (ps ! i)) (next_phoneme ps i)"
    by (simp add: section_expression_mapper_spec)
next
  show "map (\<lambda>s. (expression s, weight s))
        (fst (render_sections dmn pd l (searchSections
           [\<lparr>phoneme = ''a'', phonemeFrameLength = n1\<rparr>,
            \<lparr>phoneme = ''k'', phonemeFrameLength = n2\<rparr>,
            \<lparr>phoneme = ''i'', phonemeFrameLength = n3\<rparr>,
            \<lparr>phoneme = ''pau'', phonemeFrameLength = n4\<rparr>])))
       = [(''aa'', Fin 1), (''ih'', Fin 0.7), (''ih'', Fin 1), (''__silent'', Fin 1)]"
    by (simp add: searchSections_def Let_def section_expression_def vowelMap_def EXP_CLOSE_def
        consonantWeight_def case_prod_beta)
next
  show "map (\<lambda>s. (expression s, weight s))
        (fst (render_sections dmn pd l (searchSections
           [\<lparr>phoneme = ''z'', phonemeFrameLength = n1\<rparr>])))
       = [(''ou'', Fin 0.7)]"
    by (simp add: searchSections_def Let_def section_expression_def vowelMap_def EXP_CLOSE_def
        consonantWeight_def case_prod_beta)
qed

theorem expression_mapper_rules_witness:
  "Suc 0 < length [\<lparr>phoneme = ''a'', phonemeFrameLength = 4\<rparr>,
                   \<lparr>phoneme = ''sh'', phonemeFrameLength = 2\<rparr>,
                   \<lparr>phoneme = ''e'', phonemeFrameLength = 5\<rparr>]
   \<and> (expression (fst (render_sections sample_Domain sample_PhraseData (Fin 0) (searchSections
           [\<lparr>phoneme = ''a'', phonemeFrameLength = 4\<rparr>,
            \<lparr>phoneme = ''sh'', phonemeFrameLength = 2\<rparr>,
            \<lparr>phoneme = ''e'', phonemeFrameLength = 5\<rparr>])) ! Suc 0),
       weight (fst (render_sections sample_Domain sample_PhraseData (Fin 0) (searchSections
           [\<lparr>phoneme = ''a'', phonemeFrameLength = 4\<rparr>,
            \<lparr>phoneme = ''sh'', phonemeFrameLength = 2\<rparr>,
            \<lparr>phoneme = ''e'', phonemeFrameLength = 5\<rparr>])) ! Suc 0))
      = (''ee'', Fin 0.7)"
proof -
  let ?ps = "[\<lparr>phoneme = ''a'', phonemeFrameLength = 4\<rparr>,
              \<lparr>phoneme = ''sh'', phonemeFrameLength = 2\<rparr>,
              \<lparr>phoneme = ''e'', phonemeFrameLength = 5\<rparr>]"
  have i: "Suc 0 < length ?ps" by simp
  have m: "mapper_spec (phoneme (?ps ! Suc 0)) (next_phoneme ?ps (Suc 0)) = (''ee'', Fin 0.7)"
    by (simp add: mapper_spec_def next_phoneme_def closure_class_def vowel_shape_def)
  from expression_mapper_rules [of "Suc 0" ?ps sample_Domain sample_PhraseData "Fin 0"] i m
  show ?thesis by (simp del: One_nat_def)
qed

section \<open>The playhead lookup\<close>











section \<open>Pruning and the last end tick\<close>

lemma maxEndTick_foldl:
  "maxEndTick fm = foldl Math_max (Fin 0) (map (endTick \<circ> snd) fm)"
proof -
  have "foldl (\<lambda>acc oneframe. Math_max acc (endTick oneframe)) a fs
          = foldl Math_max a (map endTick fs)" for a and fs :: "OneFrame list"
    by (induction fs arbitrary: a) simp_all
  then show ?thesis by (simp add: maxEndTick_def)
qed

lemma maxEndTick_Nil [simp]: "maxEndTick [] = Fin 0"
  by (simp add: maxEndTick_def)

lemma maxEndTick_is_max:
  assumes nonneg: "\<forall>oneframe \<in> set (map snd fm). Fin 0 \<le> endTick oneframe" and ne: "fm \<noteq> []"
  shows "maxEndTick fm \<in> set (map (endTick \<circ> snd) fm)
       \<and> (\<forall>oneframe \<in> set (map snd fm). endTick oneframe \<le> maxEndTick fm)"
proof -
  let ?xs = "map (endTick \<circ> snd) fm"
  from nonneg have nn: "\<forall>x \<in> set ?xs. x \<noteq> NaN"
    by (auto dest: number_le_not_NaN)
  have z: "Fin 0 \<noteq> NaN" by simp
  note f = foldl_Math_max [OF z nn]
  from ne obtain e where e: "e \<in> set fm" by (cases fm) auto
  have "foldl Math_max (Fin 0) ?xs \<in> set ?xs"
  proof (cases "foldl Math_max (Fin 0) ?xs = Fin 0")
    case False
    with f show ?thesis by blast
  next
    case True
    from e f have "endTick (snd e) \<le> foldl Math_max (Fin 0) ?xs" by simp
    with True have a: "endTick (snd e) \<le> Fin 0" by simp
    from nonneg e have b: "Fin 0 \<le> endTick (snd e)" by simp
    from a b have "endTick (snd e) = Fin 0"
      unfolding less_eq_number_def by (cases "endTick (snd e)") simp_all
    with e True show ?thesis by force
  qed
  with f show ?thesis by (simp add: maxEndTick_foldl)
qed

lemma render_prune_frameMap:
  "frameMap (render_prune phrases' st) = filter (\<lambda>entry. has phrases' (fst entry)) (frameMap st)"
  by (simp add: render_prune_def Let_def case_prod_unfold)

lemma render_prune_lastEndTick:
  "lastEndTick (render_prune phrases' st)
     = (if \<exists>entry \<in> set (frameMap st). \<not> has phrases' (fst entry)
        then maxEndTick (frameMap (render_prune phrases' st)) else lastEndTick st)"
  by (simp add: render_prune_def Let_def case_prod_unfold list_ex_iff)

text \<open>
  Claim C7. For every cache whose end ticks are not negative: pruning keeps exactly the
  timelines whose phrase identifier is in the current phrase set; the maximum-end-tick
  scan over the survivors is the largest of their end ticks (one of them, and no
  survivor exceeds it), and 0 when none survives; when the prune removes something the
  scalar is set to that value, so removing the only remaining timeline resets it to 0.
\<close>

theorem prune_maxEndTick:
  assumes nonneg: "\<forall>oneframe \<in> set (map snd (frameMap st)). Fin 0 \<le> endTick oneframe"
  shows "frameMap (render_prune phrases' st)
           = filter (\<lambda>entry. has phrases' (fst entry)) (frameMap st)
       \<and> (frameMap (render_prune phrases' st) \<noteq> [] \<longrightarrow>
            maxEndTick (frameMap (render_prune phrases' st))
              \<in> set (map (endTick \<circ> snd) (frameMap (render_prune phrases' st)))
            \<and> (\<forall>oneframe \<in> set (map snd (frameMap (render_prune phrases' st))).
                  endTick oneframe \<le> maxEndTick (frameMap (render_prune phrases' st))))
       \<and> (frameMap (render_prune phrases' st) = [] \<longrightarrow>
            maxEndTick (frameMap (render_prune phrases' st)) = Fin 0)
       \<and> ((\<exists>entry \<in> set (frameMap st). \<not> has phrases' (fst entry)) \<longrightarrow>
            lastEndTick (render_prune phrases' st) = maxEndTick (frameMap (render_prune phrases' st)))
       \<and> (frameMap st \<noteq> [] \<and> frameMap (render_prune phrases' st) = [] \<longrightarrow>
            lastEndTick (render_prune phrases' st) = Fin 0)"
proof (intro conjI impI)
  show "frameMap (render_prune phrases' st)
           = filter (\<lambda>entry. has phrases' (fst entry)) (frameMap st)"
    by (rule render_prune_frameMap)
next
  assume ne: "frameMap (render_prune phrases' st) \<noteq> []"
  from nonneg have "\<forall>oneframe \<in> set (map snd (frameMap (render_prune phrases' st))).
      Fin 0 \<le> endTick oneframe"
    by (auto simp: render_prune_frameMap)
  from maxEndTick_is_max [OF this ne]
  show "maxEndTick (frameMap (render_prune phrases' st))
              \<in> set (map (endTick \<circ> snd) (frameMap (render_prune phrases' st)))"
    and "\<forall>oneframe \<in> set (map snd (frameMap (render_prune phrases' st))).
                  endTick oneframe \<le> maxEndTick (frameMap (render_prune phrases' st))"
    by blast+
next
  assume "frameMap (render_prune phrases' st) = []"
  then show "maxEndTick (frameMap (render_prune phrases' st)) = Fin 0" by simp
next
  assume "\<exists>entry \<in> set (frameMap st). \<not> has phrases' (fst entry)"
  then show "lastEndTick (render_prune phrases' st) = maxEndTick (frameMap (render_prune phrases' st))"
    by (simp add: render_prune_lastEndTick)
next
  assume a: "frameMap st \<noteq> [] \<and> frameMap (render_prune phrases' st) = []"
  then obtain e where e: "e \<in> set (frameMap st)" by (cases "frameMap st") auto
  from a have "filter (\<lambda>entry. has phrases' (fst entry)) (frameMap st) = []"
    by (simp add: render_prune_frameMap)
  with e have "\<not> has phrases' (fst e)" by (auto simp: filter_empty_conv)
  with e have "\<exists>entry \<in> set (frameMap st). \<not> has phrases' (fst entry)" by blast
  with a show "lastEndTick (render_prune phrases' st) = Fin 0"
    by (simp add: render_prune_lastEndTick)
qed

theorem prune_maxEndTick_witness:
  "Fin 0 \<le> endTick (snd (frameMap sample_State ! 0))
   \<and> Fin 0 \<le> endTick (snd (frameMap sample_State ! 1))
   \<and> map fst (frameMap (render_prune [(''phrase-0'', sample_Phrase)] sample_State)) = [''phrase-0'']
   \<and> maxEndTick (frameMap (render_prune [(''phrase-0'', sample_Phrase)] sample_State)) = Fin 2880
   \<and> lastEndTick (render_prune [(''phrase-0'', sample_Phrase)] sample_State) = Fin 2880
   \<and> frameMap (render_prune [] sample_State) = []
   \<and> lastEndTick (render_prune [] sample_State) = Fin 0"
proof -
  have nonneg: "\<forall>oneframe \<in> set (map snd (frameMap sample_State)). Fin 0 \<le> endTick oneframe"
    by (simp add: sample_State_def sample_frameMap_def)
  have m: "maxEndTick [hd sample_frameMap] = Fin 2880"
    by (simp add: maxEndTick_def sample_frameMap_def)
  from prune_maxEndTick [OF nonneg, of "[(''phrase-0'', sample_Phrase)]"]
    prune_maxEndTick [OF nonneg, of "[]"] m
  show ?thesis
    by (simp add: sample_State_def sample_frameMap_def has_def)
qed

section \<open>Building a timeline\<close>

lemma render_sections_lastEndTick:
  "snd (render_sections dmn pd l ss)
     = foldl Math_max l
         (map endTick (filter (\<lambda>s. phonemeString s \<noteq> ''pau'') (fst (render_sections dmn pd l ss))))"
proof (induction ss arbitrary: l)
  case Nil
  show ?case by simp
next
  case (Cons s ss)
  show ?case
    by (simp add: Let_def case_prod_beta Cons.IH)
qed

lemma render_build_Inr:
  assumes "render_build dmn pd st key ps = Inr st'"
  shows "\<exists>oneframe. frameMap st' = AList.update key oneframe (frameMap st)
           \<and> sections oneframe = fst (render_sections dmn pd (lastEndTick st) (searchSections ps))
           \<and> lastEndTick st' = snd (render_sections dmn pd (lastEndTick st) (searchSections ps))"
proof (cases "searchSections ps")
  case Nil
  with assms show ?thesis by (simp add: render_build_def)
next
  case (Cons first others)
  with assms show ?thesis
    by (auto simp: render_build_def Let_def case_prod_beta)
qed

lemma render_phrase_cases:
  assumes "render_phrase dmn store st (key, phrase) = Inr st'"
  shows "st' = st
       \<or> (map_of (frameMap st) key \<noteq> None \<and> st' = st\<lparr>lastTpqn := tpqn phrase\<rparr>)
       \<or> (map_of (frameMap st) key = None
           \<and> (\<exists>pd ps. render_build dmn pd (st\<lparr>lastTpqn := tpqn phrase\<rparr>) key ps = Inr st'))"
proof (cases "singer phrase")
  case None
  with assms show ?thesis by (simp add: render_phrase_def)
next
  case s: (Some singer')
  show ?thesis
  proof (cases "query phrase")
    case None
    with assms s show ?thesis by (simp add: render_phrase_def)
  next
    case q: (Some query')
    show ?thesis
    proof (cases "startTime phrase")
      case None
      with assms s q show ?thesis by (simp add: render_phrase_def)
    next
      case t: (Some startTime')
      show ?thesis
      proof (cases "truthy startTime'")
        case False
        with assms s q t show ?thesis by (simp add: render_phrase_def)
      next
        case True
        show ?thesis
        proof (cases "map_of (engineManifests store) (engineId singer')")
          case None
          with assms s q t True show ?thesis by (simp add: render_phrase_def Let_def)
        next
          case e: (Some frameRate)
          show ?thesis
          proof (cases "map_of (frameMap st) key")
            case None
            with assms s q t True e show ?thesis
              by (simp add: render_phrase_def Let_def) blast
          next
            case (Some oneframe)
            with assms s q t True e show ?thesis
              by (simp add: render_phrase_def Let_def)
          qed
        qed
      qed
    qed
  qed
qed

lemma sample_phrase_built:
  "render_phrase sample_Domain sample_Store initial_State (''phrase-1'', sample_Phrase)
     = Inr sample_built_State"
  by (simp add: render_phrase_def render_build_def sample_Domain_def sample_Store_def
      initial_State_def sample_Phrase_def sample_built_frame_def sample_built_State_def
      searchSections_def Let_def first_tempo_def index_def section_expression_def EXP_CLOSE_def)

text \<open>
  Claim C3, as amended. When the prune removes a timeline, the last end tick becomes
  the result of the scan over the surviving timelines (the largest of 0 and their end
  ticks); when it removes nothing, the scalar is unchanged. When a phrase gets a new
  timeline, the scalar becomes the largest of its previous value and the end ticks of
  the new timeline's sections that are not \<open>pau\<close>.
\<close>

theorem lastEndTick_counts_sung_sections:
  "((\<exists>entry \<in> set (frameMap st). \<not> has phrases' (fst entry)) \<longrightarrow>
       lastEndTick (render_prune phrases' st) = maxEndTick (frameMap (render_prune phrases' st)))
   \<and> (\<not> (\<exists>entry \<in> set (frameMap st). \<not> has phrases' (fst entry)) \<longrightarrow>
       lastEndTick (render_prune phrases' st) = lastEndTick st)
   \<and> (render_phrase dmn store st (key, phrase) = Inr st'
        \<and> map_of (frameMap st) key = None \<and> map_of (frameMap st') key = Some oneframe \<longrightarrow>
       lastEndTick st'
         = foldl Math_max (lastEndTick st)
             (map endTick (filter (\<lambda>s. phonemeString s \<noteq> ''pau'') (sections oneframe))))"
proof (intro conjI impI)
  assume a: "render_phrase dmn store st (key, phrase) = Inr st'
        \<and> map_of (frameMap st) key = None \<and> map_of (frameMap st') key = Some oneframe"
  with render_phrase_cases [of dmn store st key phrase st']
  obtain pd ps where b: "render_build dmn pd (st\<lparr>lastTpqn := tpqn phrase\<rparr>) key ps = Inr st'"
    by auto
  from render_build_Inr [OF b] obtain built where
    fm: "frameMap st' = AList.update key built (frameMap st)"
    and ss: "sections built = fst (render_sections dmn pd (lastEndTick st) (searchSections ps))"
    and l: "lastEndTick st' = snd (render_sections dmn pd (lastEndTick st) (searchSections ps))"
    by auto
  from fm a have "oneframe = built"
    by (simp add: update_conv')
  with ss l show "lastEndTick st'
         = foldl Math_max (lastEndTick st)
             (map endTick (filter (\<lambda>s. phonemeString s \<noteq> ''pau'') (sections oneframe)))"
    by (simp add: render_sections_lastEndTick)
qed (simp_all add: render_prune_lastEndTick)

theorem lastEndTick_counts_sung_sections_witness:
  "\<not> has [] (fst (hd (frameMap sample_State)))
   \<and> lastEndTick (render_prune [] sample_State) = Fin 0
   \<and> has (phrases sample_Store) (fst (hd (frameMap sample_built_State)))
   \<and> lastEndTick (render_prune (phrases sample_Store) sample_built_State) = Fin 1920
   \<and> render_phrase sample_Domain sample_Store initial_State (''phrase-1'', sample_Phrase)
       = Inr sample_built_State
   \<and> map_of (frameMap initial_State) ''phrase-1'' = None
   \<and> map_of (frameMap sample_built_State) ''phrase-1'' = Some sample_built_frame
   \<and> lastEndTick sample_built_State = Math_max (Fin 0) (Fin 1920)"
proof -
  have gone: "\<exists>entry \<in> set (frameMap sample_State). \<not> has [] (fst entry)"
    by (auto simp: sample_State_def sample_frameMap_def has_def)
  have stay: "\<not> (\<exists>entry \<in> set (frameMap sample_built_State).
                  \<not> has (phrases sample_Store) (fst entry))"
    by (simp add: sample_built_State_def sample_Store_def has_def)
  have new: "render_phrase sample_Domain sample_Store initial_State (''phrase-1'', sample_Phrase)
               = Inr sample_built_State
             \<and> map_of (frameMap initial_State) ''phrase-1'' = None
             \<and> map_of (frameMap sample_built_State) ''phrase-1'' = Some sample_built_frame"
    by (simp add: sample_phrase_built) (simp add: initial_State_def sample_built_State_def)
  from lastEndTick_counts_sung_sections
         [of sample_State "[]" sample_Domain sample_Store "''phrase-1''" sample_Phrase
             sample_built_State sample_built_frame]
       lastEndTick_counts_sung_sections
         [of sample_built_State "phrases sample_Store" sample_Domain sample_Store "''phrase-1''"
             sample_Phrase sample_built_State sample_built_frame]
       lastEndTick_counts_sung_sections
         [of initial_State "[]" sample_Domain sample_Store "''phrase-1''" sample_Phrase
             sample_built_State sample_built_frame]
       gone stay new
  show ?thesis
    by (simp add: render_prune_frameMap sample_State_def sample_frameMap_def has_def
        sample_built_State_def sample_Store_def initial_State_def sample_built_frame_def)
qed

text \<open>
  Claim C3, as stated, fails. From the initial state (last end tick 0) the phrase
  \<open>a\<close>, \<open>pau\<close> gets a timeline that ends at tick 2400, beyond the scalar, yet the
  scalar becomes 1920, the end of \<open>a\<close>, and not 2400.
\<close>

theorem lastEndTick_extension_counterexample:
  "render_phrase sample_Domain sample_Store initial_State (''phrase-1'', sample_Phrase)
     = Inr sample_built_State
   \<and> map_of (frameMap initial_State) ''phrase-1'' = None
   \<and> map_of (frameMap sample_built_State) ''phrase-1'' = Some sample_built_frame
   \<and> lastEndTick initial_State < endTick sample_built_frame
   \<and> lastEndTick sample_built_State \<noteq> endTick sample_built_frame"
  by (simp add: sample_phrase_built)
     (simp add: initial_State_def sample_built_frame_def sample_built_State_def)

section \<open>Cached timelines stay\<close>

lemma map_of_filter_key:
  "map_of (filter (\<lambda>entry. P (fst entry)) xs) k = (if P k then map_of xs k else None)"
  by (induction xs) auto

lemma render_phrase_keeps:
  assumes c: "map_of (frameMap st) k = Some oneframe"
    and r: "render_phrase dmn store st entry = Inr st'"
  shows "map_of (frameMap st') k = Some oneframe"
proof -
  obtain key phrase where e: "entry = (key, phrase)" by (cases entry)
  from render_phrase_cases [OF r [unfolded e]] show ?thesis
  proof (elim disjE conjE exE)
    assume "st' = st"
    with c show ?thesis by simp
  next
    assume "st' = st\<lparr>lastTpqn := tpqn phrase\<rparr>"
    with c show ?thesis by simp
  next
    fix pd ps
    assume n: "map_of (frameMap st) key = None"
      and b: "render_build dmn pd (st\<lparr>lastTpqn := tpqn phrase\<rparr>) key ps = Inr st'"
    from n c have "key \<noteq> k" by auto
    with render_build_Inr [OF b] c show ?thesis
      by (auto simp: update_conv')
  qed
qed

lemma render_phrases_keeps:
  "map_of (frameMap st) k = Some oneframe \<Longrightarrow> render_phrases dmn store st entries = Inr st' \<Longrightarrow>
     map_of (frameMap st') k = Some oneframe"
proof (induction entries arbitrary: st)
  case Nil
  then show ?case by simp
next
  case (Cons entry entries)
  from Cons.prems(2) obtain st1 where 1: "render_phrase dmn store st entry = Inr st1"
    and 2: "render_phrases dmn store st1 entries = Inr st'"
    by (auto split: sum.splits)
  from render_phrase_keeps [OF Cons.prems(1) 1] 2 Cons.IH show ?case by blast
qed

lemma render_motion_frameMap: "frameMap (fst (render_motion st t)) = frameMap st"
  by (simp add: render_motion_def Let_def case_prod_beta)

lemma render_Inr:
  assumes "render dmn gfx store st t = Inr (st', out)"
  shows "\<exists>st2. render_phrases dmn store (render_prune (phrases store) st) (phrases store) = Inr st2
           \<and> st' = fst (render_motion st2 t)"
  using assms
  by (auto simp: render_def case_prod_beta split: if_splits sum.splits)

text \<open>
  Claim C8. For every phrase identifier that has a cached timeline: processing a
  snapshot of that phrase leaves the whole cache, and with it that timeline, as it was
  (and does not touch the last end tick); and after a whole call of \<^verbatim>\<open>render\<close> in
  which the phrase is still present, the identifier still maps to the same timeline.
\<close>

theorem cached_timeline_kept:
  assumes c: "map_of (frameMap st) k = Some oneframe"
  shows "(render_phrase dmn store st (k, phrase) = Inr st' \<longrightarrow>
            frameMap st' = frameMap st \<and> lastEndTick st' = lastEndTick st)
       \<and> (has (phrases store) k \<and> render dmn gfx store st t = Inr (st'', out) \<longrightarrow>
            map_of (frameMap st'') k = Some oneframe)"
proof (intro conjI impI)
  assume r: "render_phrase dmn store st (k, phrase) = Inr st'"
  from render_phrase_cases [OF r] c
  show "frameMap st' = frameMap st" and "lastEndTick st' = lastEndTick st"
    by auto
next
  assume a: "has (phrases store) k \<and> render dmn gfx store st t = Inr (st'', out)"
  then obtain st2 where
    2: "render_phrases dmn store (render_prune (phrases store) st) (phrases store) = Inr st2"
    and 3: "st'' = fst (render_motion st2 t)"
    using render_Inr by blast
  from a c have "map_of (frameMap (render_prune (phrases store) st)) k = Some oneframe"
    by (simp add: render_prune_frameMap map_of_filter_key)
  from render_phrases_keeps [OF this 2] 3 show "map_of (frameMap st'') k = Some oneframe"
    by (simp add: render_motion_frameMap)
qed

theorem cached_timeline_kept_witness:
  "map_of (frameMap sample_State) ''phrase-0'' = Some (snd (hd sample_frameMap))
   \<and> render_phrase sample_Domain later_Store sample_State (hd (phrases later_Store))
       = Inr (sample_State\<lparr>lastTpqn := Fin 960\<rparr>)
   \<and> frameMap (sample_State\<lparr>lastTpqn := Fin 960\<rparr>) = frameMap sample_State
   \<and> has (phrases later_Store) ''phrase-0''
   \<and> render sample_Domain ready_Graphics later_Store sample_State (Fin 2000)
       = Inr (projr (render sample_Domain ready_Graphics later_Store sample_State (Fin 2000)))
   \<and> map_of (frameMap (fst (projr
        (render sample_Domain ready_Graphics later_Store sample_State (Fin 2000))))) ''phrase-0''
       = Some (snd (hd sample_frameMap))"
proof -
  let ?r = "render sample_Domain ready_Graphics later_Store sample_State (Fin 2000)"
  have c: "map_of (frameMap sample_State) ''phrase-0'' = Some (snd (hd sample_frameMap))"
    by (simp add: sample_State_def sample_frameMap_def)
  have p: "render_phrase sample_Domain later_Store sample_State
             (''phrase-0'', sample_Phrase\<lparr>tpqn := Fin 960\<rparr>)
           = Inr (sample_State\<lparr>lastTpqn := Fin 960\<rparr>)"
    by (simp add: render_phrase_def later_Store_def sample_State_def sample_Phrase_def
        sample_frameMap_def Let_def)
  have h: "has (phrases later_Store) ''phrase-0''"
    by (simp add: later_Store_def has_def)
  have ps: "render_phrases sample_Domain later_Store
              (render_prune (phrases later_Store) sample_State) (phrases later_Store)
            = Inr (render_prune (phrases later_Store) sample_State\<lparr>lastTpqn := Fin 960\<rparr>)"
    by (simp add: render_phrase_def render_prune_def later_Store_def sample_State_def
        sample_Phrase_def sample_frameMap_def Let_def has_def)
  have r: "?r = Inr (projr ?r)"
    by (simp add: render_def ready_Graphics_def defined_number_def ps case_prod_beta)
  then have r': "?r = Inr (fst (projr ?r), snd (projr ?r))"
    by simp
  from cached_timeline_kept [OF c, of sample_Domain later_Store "sample_Phrase\<lparr>tpqn := Fin 960\<rparr>"
         "sample_State\<lparr>lastTpqn := Fin 960\<rparr>" ready_Graphics "Fin 2000" "fst (projr ?r)" "snd (projr ?r)"]
       c p h r r'
  show ?thesis
    by (simp add: later_Store_def)
qed

section \<open>The ending decay\<close>

lemma cosEase_Fin: "cosEase (Fin t) = Fin ((1 - cos (t * pi)) * 0.5)"
  by (simp add: cosEase_def Math_PI_def)

lemma decay_scale_range:
  assumes "0 < q"
  shows "0 \<le> decay_scale p q"
proof -
  have "- 1 \<le> cos (min 1 (p / q) * pi)" by simp
  then show ?thesis by (simp add: decay_scale_def)
qed

lemma decay_scale_mono:
  assumes q: "0 < q" and p: "0 \<le> p1" "p1 \<le> p2" "p2 \<le> q"
  shows "decay_scale p2 q \<le> decay_scale p1 q"
proof -
  let ?t1 = "min 1 (p1 / q)" and ?t2 = "min 1 (p2 / q)"
  from q p have t: "0 \<le> ?t1" "?t1 \<le> ?t2" "?t2 \<le> 1"
    by (simp_all add: divide_right_mono min.coboundedI2)
  have "cos (?t2 * pi) \<le> cos (?t1 * pi)"
  proof (rule cos_monotone_0_pi_le)
    from t show "0 \<le> ?t1 * pi" by simp
    from t show "?t1 * pi \<le> ?t2 * pi" by (simp add: mult_right_mono)
    from t(3) have "?t2 * pi \<le> 1 * pi" by (rule mult_right_mono) simp
    then show "?t2 * pi \<le> pi" by simp
  qed
  then show ?thesis by (simp add: decay_scale_def)
qed

lemma decay_scale_end: "0 < q \<Longrightarrow> decay_scale q q = 0"
  by (simp add: decay_scale_def)

lemma motion_ending_decay:
  assumes st: "lastRot st = Some (Fin rx, ry, Fin rz)" "\<not> isEnd st"
      "lastTpqn st = Fin q" "lastEndTick st = Fin e"
    and p: "0 < p" "p \<le> q"
  shows "motion_ending st (Fin (e + p)) xrot0 zrot0
           = (p = q, if p = q then None else Some (Fin rx, ry, Fin rz),
              Fin (rx * decay_scale p q), Fin (rz * decay_scale p q))"
proof -
  from p have q: "q \<noteq> 0" by simp
  from p have m: "min 1 (p / q) = p / q" by (simp add: min_def)
  have t1: "p / q = 1 \<longleftrightarrow> p = q" using q by (auto simp: field_simps)
  show ?thesis
  proof (cases "p = q")
    case True
    with st p q show ?thesis
      by (simp add: motion_ending_def Let_def cosEase_Fin decay_scale_def)
  next
    case False
    with st p q m t1 show ?thesis
      by (simp add: motion_ending_def Let_def cosEase_Fin decay_scale_def)
  qed
qed

lemma motion_ending_ended:
  assumes "isEnd st" "lastEndTick st = Fin e" "0 < p"
  shows "motion_ending st (Fin (e + p)) xrot0 zrot0 = (True, lastRot st, Fin 0, Fin 0)"
  using assms by (simp add: motion_ending_def Let_def)

lemma render_motion_chest_head:
  assumes "motion_ending st t (sway_xrot (motion_mod st t)) (sway_zrot (motion_mod st t))
             = (e1, r1, xrot, zrot)"
  shows "map_of (fst (snd (render_motion st t))) ''chest'' = Some (Fin 0, Fin 0, zrot)"
    and "map_of (fst (snd (render_motion st t))) ''head'' = Some (xrot, Fin 0, zrot * Fin 4)"
    and "isEnd (fst (render_motion st t)) = e1"
    and "lastRot (fst (render_motion st t)) = r1"
    and "lastEndTick (fst (render_motion st t)) = lastEndTick st"
    and "lastTpqn (fst (render_motion st t)) = lastTpqn st"
  using assms by (simp_all add: render_motion_def Let_def update_conv')

text \<open>
  Claim C9. In a state that is decaying from a captured rotation, for ticks past the
  last end tick by \<open>p1 \<le> p2\<close>, both between 0 and \<^verbatim>\<open>lastTpqn\<close>: the chest and the
  head get the captured rotation scaled by one minus the cosine ease of
  \<open>min 1 (pastTick / lastTpqn)\<close>; the magnitude of each component at \<open>p2\<close> is at most
  the one at \<open>p1\<close>; at \<open>pastTick = lastTpqn\<close> the scale is 0, the rotations are 0 and
  \<^verbatim>\<open>isEnd\<close> is set; and from that state every later frame past the last end tick
  keeps them at 0.
\<close>

theorem ending_decay_monotone:
  assumes st: "lastRot st = Some (Fin rx, ry, Fin rz)" "\<not> isEnd st"
      "lastTpqn st = Fin q" "lastEndTick st = Fin e"
    and p: "0 < p1" "p1 \<le> p2" "p2 \<le> q"
  shows "map_of (fst (snd (render_motion st (Fin (e + p1))))) ''chest''
           = Some (Fin 0, Fin 0, Fin (rz * decay_scale p1 q))
       \<and> map_of (fst (snd (render_motion st (Fin (e + p1))))) ''head''
           = Some (Fin (rx * decay_scale p1 q), Fin 0, Fin (rz * decay_scale p1 q * 4))
       \<and> map_of (fst (snd (render_motion st (Fin (e + p2))))) ''chest''
           = Some (Fin 0, Fin 0, Fin (rz * decay_scale p2 q))
       \<and> map_of (fst (snd (render_motion st (Fin (e + p2))))) ''head''
           = Some (Fin (rx * decay_scale p2 q), Fin 0, Fin (rz * decay_scale p2 q * 4))
       \<and> \<bar>rz * decay_scale p2 q\<bar> \<le> \<bar>rz * decay_scale p1 q\<bar>
       \<and> \<bar>rx * decay_scale p2 q\<bar> \<le> \<bar>rx * decay_scale p1 q\<bar>
       \<and> rz * decay_scale q q = 0 \<and> rx * decay_scale q q = 0
       \<and> map_of (fst (snd (render_motion st (Fin (e + q))))) ''chest'' = Some (Fin 0, Fin 0, Fin 0)
       \<and> map_of (fst (snd (render_motion st (Fin (e + q))))) ''head'' = Some (Fin 0, Fin 0, Fin 0)
       \<and> isEnd (fst (render_motion st (Fin (e + q))))
       \<and> (\<forall>p > 0. map_of (fst (snd (render_motion (fst (render_motion st (Fin (e + q))))
                                      (Fin (e + p))))) ''chest''
                     = Some (Fin 0, Fin 0, Fin 0)
                 \<and> map_of (fst (snd (render_motion (fst (render_motion st (Fin (e + q))))
                                      (Fin (e + p))))) ''head''
                     = Some (Fin 0, Fin 0, Fin 0))"
proof -
  from p have q: "0 < q" and p2: "0 < p2" and p1: "p1 \<le> q" by simp_all
  note d1 = motion_ending_decay [OF st p(1) p1]
  note d2 = motion_ending_decay [OF st p2 p(3)]
  have qq: "q \<le> q" by simp
  note dq = motion_ending_decay [OF st q qq]
  have dz: "decay_scale q q = 0" using q by (rule decay_scale_end)
  have mono: "decay_scale p2 q \<le> decay_scale p1 q"
    using q p by (intro decay_scale_mono) simp_all
  have nn: "0 \<le> decay_scale p2 q" using q by (rule decay_scale_range)
  have abs_le: "\<bar>r * decay_scale p2 q\<bar> \<le> \<bar>r * decay_scale p1 q\<bar>" for r
    using mono nn by (simp add: abs_mult mult_left_mono)
  let ?ended = "fst (render_motion st (Fin (e + q)))"
  have ended: "isEnd ?ended" "lastEndTick ?ended = Fin e"
    using render_motion_chest_head(3,5) [OF dq] st by simp_all
  have held: "map_of (fst (snd (render_motion ?ended (Fin (e + p))))) ''chest''
                = Some (Fin 0, Fin 0, Fin 0)
              \<and> map_of (fst (snd (render_motion ?ended (Fin (e + p))))) ''head''
                = Some (Fin 0, Fin 0, Fin 0)" if "0 < p" for p
    using render_motion_chest_head(1,2) [OF motion_ending_ended [OF ended that]] by simp
  from render_motion_chest_head(1,2) [OF d1] render_motion_chest_head(1,2) [OF d2]
    render_motion_chest_head(1,2,3) [OF dq] abs_le dz held
  show ?thesis by simp
qed

theorem ending_decay_monotone_witness:
  "lastRot decaying_State = Some (Fin 0.05, Fin 0, Fin (- 0.03))
   \<and> \<not> isEnd decaying_State
   \<and> lastTpqn decaying_State = Fin 480
   \<and> lastEndTick decaying_State = Fin 1920
   \<and> (0 :: real) < 120 \<and> (120 :: real) \<le> 240 \<and> (240 :: real) \<le> 480
   \<and> \<bar>(- 0.03) * decay_scale 240 480\<bar> \<le> \<bar>(- 0.03) * decay_scale 120 480\<bar>
   \<and> map_of (fst (snd (render_motion decaying_State (Fin (1920 + 240))))) ''chest''
       = Some (Fin 0, Fin 0, Fin ((- 0.03) * decay_scale 240 480))
   \<and> map_of (fst (snd (render_motion decaying_State (Fin (1920 + 480))))) ''chest''
       = Some (Fin 0, Fin 0, Fin 0)
   \<and> isEnd (fst (render_motion decaying_State (Fin (1920 + 480))))
   \<and> (0 :: real) < 100
   \<and> map_of (fst (snd (render_motion (fst (render_motion decaying_State (Fin (1920 + 480))))
                          (Fin (1920 + 100))))) ''head''
       = Some (Fin 0, Fin 0, Fin 0)"
proof -
  have st: "lastRot decaying_State = Some (Fin 0.05, Fin 0, Fin (- 0.03))"
    "\<not> isEnd decaying_State" "lastTpqn decaying_State = Fin 480"
    "lastEndTick decaying_State = Fin 1920"
    by (simp_all add: decaying_State_def)
  have p: "(0 :: real) < 120" "(120 :: real) \<le> 240" "(240 :: real) \<le> 480"
    by simp_all
  have h: "(0 :: real) < 100" by simp
  note t = ending_decay_monotone [OF st p]
  from t have held: "map_of (fst (snd (render_motion
        (fst (render_motion decaying_State (Fin (1920 + 480)))) (Fin (1920 + 100))))) ''head''
       = Some (Fin 0, Fin 0, Fin 0)"
    using h by blast
  from t st p h held show ?thesis
    by (simp del: Fin_plus)
qed

section \<open>Calls at the start and with a playhead that is not a number\<close>

lemma NaN_arith [simp]:
  "NaN - x = NaN" "NaN / x = NaN" "NaN * x = NaN" "NaN + x = NaN"
  "\<not> NaN < x" "\<not> x < NaN" "\<not> NaN \<le> x" "\<not> x \<le> NaN"
  by (simp_all add: minus_number_def divide_number_def times_number_def plus_number_def
      less_number_def less_eq_number_def, (cases x; simp)+)

lemma Math_min_NaN [simp]: "Math_min x NaN = NaN" "Math_min NaN x = NaN"
  by (cases x; simp)+

lemma empty_phrases_kept:
  "render_phrases dmn empty_Store (render_prune (phrases empty_Store) initial_State)
     (phrases empty_Store) = Inr initial_State"
  by (simp add: empty_Store_def render_prune_def initial_State_def)

lemma motion_ending_NaN:
  "motion_ending st NaN xrot0 zrot0 = (False, None, xrot0, zrot0)"
  by (simp add: motion_ending_def Let_def)

lemma render_motion_NaN:
  "fst (render_motion st NaN) = st\<lparr>isEnd := False, lastRot := None\<rparr>"
  "snd (snd (render_motion st NaN)) = NaN"
  by (simp_all add: render_motion_def motion_ending_NaN Let_def)

lemma render_weights_empty:
  "render_weights dmn ready_Graphics empty_Store initial_State t
     = Inr (snd (render_expression (fst (render_motion initial_State t)) t
                   (snd (snd (render_motion initial_State t)))
                   (fst (snd (render_motion initial_State t)))))"
  by (simp add: render_weights_def render_def ready_Graphics_def defined_number_def
      empty_phrases_kept case_prod_beta)

text \<open>
  Claim C1. With the rendering context ready, no phrases and the initial state, a call
  with \<^verbatim>\<open>playheadTicks = NaN\<close> returns, and its expression weights are the following:
  the weight stored for \<open>Wink_L\<close> is \<^verbatim>\<open>NaN\<close>.
\<close>

theorem render_NaN_weights:
  "render_weights sample_Domain ready_Graphics empty_Store initial_State NaN
     = Inr [(''aa'', Fin 0), (''ih'', Fin 0), (''ou'', Fin 0), (''ee'', Fin 0), (''oh'', Fin 0),
            (''Hauu'', Fin 0), (''Wink_L'', NaN), (''neutral'', Fin 1)]"
  by (simp add: render_weights_empty render_motion_NaN render_expression_def Let_def)
     (simp add: initial_State_def searchSection_def searchSection_result_def makeWeight_def has_def
      EXP_CLOSE_def config_motion_long_expression_def config_motion_last_expression_def
      config_motion_high_enable_def config_motion_long_enable_def config_motion_long_ratio_def)

lemma motion_ending_start:
  "motion_ending initial_State (Fin 0) xrot0 zrot0
     = (False, None, xrot0, degToRad (Fin 1.8
          * twoPointEase \<lparr> x0 = Fin 0, y0 = Fin 0, x1 = Fin 1, y1 = Fin (-1) \<rparr> (Fin 0)))"
  by (simp add: motion_ending_def Let_def initial_State_def)

lemma render_motion_start:
  "fst (render_motion initial_State (Fin 0)) = initial_State"
  "snd (snd (render_motion initial_State (Fin 0))) = Fin 0"
  by (simp_all add: render_motion_def motion_ending_start Let_def) (simp_all add: initial_State_def)

text \<open>
  Claim C2. With the rendering context ready, no phrases and the initial state, a call
  with \<^verbatim>\<open>playheadTicks = 0\<close> returns, and its expression weights are the following:
  the weight stored for \<open>Wink_L\<close> is \<open>-60\<close>.
\<close>

theorem render_start_weights:
  "render_weights sample_Domain ready_Graphics empty_Store initial_State (Fin 0)
     = Inr [(''aa'', Fin 0), (''ih'', Fin 0), (''ou'', Fin 0), (''ee'', Fin 0), (''oh'', Fin 0),
            (''Hauu'', Fin 0), (''Wink_L'', Fin (- 60)), (''neutral'', Fin 1)]"
  by (simp add: render_weights_empty render_motion_start render_expression_def Let_def)
     (simp add: initial_State_def searchSection_def searchSection_result_def makeWeight_def has_def
      EXP_CLOSE_def config_motion_long_expression_def config_motion_last_expression_def
      config_motion_high_enable_def config_motion_long_enable_def config_motion_long_ratio_def)


lemma sway_at_phase_0:
  "sway_zrot (Fin 0) = Fin (- (1.8 * pi / 180))" "sway_xrot (Fin 0) = Fin (3 * pi / 180)"
  by (simp_all add: sway_zrot_def sway_xrot_def degToRad_def Math_PI_def ease_def ease_sections_def
      trunc_def)

lemma render_NaN_pose:
  "render_pose sample_Domain ready_Graphics empty_Store initial_State NaN
     = Inr (AList.update ''head'' (sway_xrot (Fin 0), Fin 0, sway_zrot (Fin 0) * Fin 4)
             (AList.update ''chest'' (Fin 0, Fin 0, sway_zrot (Fin 0)) motion_pose))"
proof -
  have m: "motion_mod st NaN = Fin 0" for st
    by (simp add: motion_mod_def)
  have e: "fst (render_expression st NaN NaN pose0) = pose0" for st pose0
    by (simp add: render_expression_def Let_def)
  have c: "map (\<lambda>(key, value). (key, conv value)) pose0 = pose0" for pose0 :: pose
    by (induction pose0) (auto simp: conv_def config_isZero_def)
  show ?thesis
    by (simp add: render_pose_def render_def ready_Graphics_def defined_number_def
        empty_phrases_kept case_prod_beta render_motion_NaN e c)
       (simp add: render_motion_def m motion_ending_NaN Let_def)
qed

lemma render_NaN_Wink_L:
  assumes "render dmn gfx store st NaN = Inr (st', out)"
  shows "map_of (out_weights out) ''Wink_L'' = Some NaN"
proof -
  from assms obtain st2 where
    out: "out_weights out
            = snd (render_expression (fst (render_motion st2 NaN)) NaN
                     (snd (snd (render_motion st2 NaN))) (fst (snd (render_motion st2 NaN))))"
    by (auto simp: render_def case_prod_beta split: if_splits sum.splits)
  show ?thesis
    unfolding out
    by (simp add: render_motion_NaN render_expression_def Let_def update_conv'
        config_motion_last_expression_def)
qed

section \<open>The cache that render builds is well-formed\<close>

text \<open>The lookup theorem asks for a cache whose sections lie within their timelines. The
  empty cache is one, pruning keeps the property, and so does building a timeline when
  the tick conversion is monotonic, the start time is finite, the frame rate is
  positive and no phoneme has a negative length.\<close>

lemma cache_wf_Nil: "cache_wf []"
  by (simp add: cache_wf_def)

lemma render_prune_cache_wf: "cache_wf (frameMap st) \<Longrightarrow> cache_wf (frameMap (render_prune phrases' st))"
  unfolding cache_wf_def render_prune_frameMap by auto

lemma searchSections_from_bounds:
  "\<forall>p \<in> set ps. 0 \<le> phonemeFrameLength p \<Longrightarrow> s \<in> set (searchSections_from c ps) \<Longrightarrow>
     c \<le> startFrame s \<and> startFrame s \<le> endFrame s
     \<and> endFrame s \<le> endFrame (last (searchSections_from c ps))"
proof (induction ps arbitrary: c s)
  case Nil
  then show ?case by simp
next
  case (Cons p ps)
  let ?rest = "searchSections_from (c + phonemeFrameLength p) ps"
  from Cons.prems(1) have len: "0 \<le> phonemeFrameLength p"
    and lens: "\<forall>p \<in> set ps. 0 \<le> phonemeFrameLength p" by simp_all
  note ih = Cons.IH [OF lens, of _ "c + phonemeFrameLength p"]
  show ?case
  proof (cases "s \<in> set ?rest")
    case True
    then have "?rest \<noteq> []" by auto
    with ih [OF True] len show ?thesis by simp
  next
    case False
    with Cons.prems(2) have s: "startFrame s = c" "endFrame s = c + phonemeFrameLength p"
      by auto
    show ?thesis
    proof (cases ?rest)
      case Nil
      with s len show ?thesis by simp
    next
      case (Cons t ts)
      then have "t \<in> set ?rest" by simp
      from ih [OF this] Cons s len show ?thesis by simp
    qed
  qed
qed

lemma render_sections_ticks:
  "s' \<in> set (fst (render_sections dmn pd l ss)) \<Longrightarrow>
     \<exists>s \<in> set ss.
        startTick s' = secondToTick dmn
            (pd_startTime pd + Fin (of_int (startFrame s)) / pd_frameRate pd) (pd_tempos pd) (pd_tpqn pd)
        \<and> endTick s' = secondToTick dmn
            (pd_startTime pd + Fin (of_int (endFrame s)) / pd_frameRate pd) (pd_tempos pd) (pd_tpqn pd)"
proof (induction ss arbitrary: l)
  case Nil
  then show ?case by simp
next
  case (Cons s ss)
  from Cons.prems show ?case
    by (auto simp: Let_def case_prod_beta dest: Cons.IH)
qed

lemma render_build_frame:
  assumes "render_build dmn pd st key ps = Inr st'"
  shows "\<exists>oneframe. frameMap st' = AList.update key oneframe (frameMap st)
           \<and> sections oneframe = fst (render_sections dmn pd (lastEndTick st) (searchSections ps))
           \<and> startTick oneframe = secondToTick dmn (pd_startTime pd) (pd_tempos pd) (pd_tpqn pd)
           \<and> endTick oneframe = secondToTick dmn
                (pd_startTime pd
                 + Fin (of_int (endFrame (last (searchSections ps)))) / pd_frameRate pd)
                (pd_tempos pd) (pd_tpqn pd)"
proof (cases "searchSections ps")
  case Nil
  with assms show ?thesis by (simp add: render_build_def)
next
  case (Cons first others)
  then have "startFrame first = 0"
    by (cases ps) (auto simp: searchSections_def)
  with Cons assms show ?thesis
    by (auto simp: render_build_def Let_def case_prod_beta)
qed

lemma set_update_subset: "set (AList.update k v al) \<subseteq> insert (k, v) (set al)"
  by (induction al) auto

lemma render_build_cache_wf:
  assumes mono: "\<forall>a b. a \<le> b \<longrightarrow>
        secondToTick dmn (Fin a) (pd_tempos pd) (pd_tpqn pd)
          \<le> secondToTick dmn (Fin b) (pd_tempos pd) (pd_tpqn pd)"
    and s0: "pd_startTime pd = Fin s0" and r: "pd_frameRate pd = Fin r" "0 < r"
    and len: "\<forall>p \<in> set ps. 0 \<le> phonemeFrameLength p"
    and wf: "cache_wf (frameMap st)"
    and b: "render_build dmn pd st key ps = Inr st'"
  shows "cache_wf (frameMap st')"
proof -
  let ?tick = "\<lambda>x. secondToTick dmn (Fin x) (pd_tempos pd) (pd_tpqn pd)"
  let ?ss = "searchSections ps"
  from render_build_frame [OF b] obtain oneframe where
    fm: "frameMap st' = AList.update key oneframe (frameMap st)"
    and ss: "sections oneframe = fst (render_sections dmn pd (lastEndTick st) ?ss)"
    and st: "startTick oneframe = ?tick s0"
    and en: "endTick oneframe = ?tick (s0 + of_int (endFrame (last ?ss)) / r)"
    using s0 r by auto
  have new: "startTick oneframe \<le> startTick s' \<and> endTick s' \<le> endTick oneframe"
    if "s' \<in> set (sections oneframe)" for s'
  proof -
    from that ss render_sections_ticks [of s' dmn pd "lastEndTick st" ?ss]
    obtain s where s: "s \<in> set ?ss"
      and a: "startTick s' = ?tick (s0 + of_int (startFrame s) / r)"
      and e: "endTick s' = ?tick (s0 + of_int (endFrame s) / r)"
      using s0 r by auto
    from searchSections_from_bounds [OF len, of s 0] s
    have f: "0 \<le> startFrame s" "startFrame s \<le> endFrame s"
      "endFrame s \<le> endFrame (last ?ss)"
      by (simp_all add: searchSections_def)
    from f r(2) have "s0 \<le> s0 + of_int (startFrame s) / r" by simp
    moreover from f r(2)
    have "s0 + of_int (endFrame s) / r \<le> s0 + of_int (endFrame (last ?ss)) / r"
      by (simp add: divide_right_mono)
    ultimately show ?thesis using mono a e st en by simp
  qed
  show ?thesis
    unfolding cache_wf_def
  proof (intro ballI)
    fix f s' assume f: "f \<in> set (map snd (frameMap st'))" and s': "s' \<in> set (sections f)"
    from f fm set_update_subset [of key oneframe "frameMap st"]
    have "f = oneframe \<or> f \<in> set (map snd (frameMap st))" by auto
    then show "startTick f \<le> startTick s' \<and> endTick s' \<le> endTick f"
    proof
      assume "f = oneframe"
      with new s' show ?thesis by simp
    next
      assume "f \<in> set (map snd (frameMap st))"
      with wf s' show ?thesis unfolding cache_wf_def by blast
    qed
  qed
qed

section \<open>Further facts about the lookup and the finale weight\<close>


text \<open>The finale weight for finite numbers: it is the ramp bounded by 1 from above only,
  so it is negative until the playhead is three quarter notes past the last end tick;
  up to that point the pose is left as the motion part set it.\<close>

lemma render_expression_Wink_L:
  assumes "lastTpqn st = Fin q"
  shows "map_of (snd (render_expression st t (Fin d) pose0)) ''Wink_L''
           = Some (Fin (min 1 ((d - q * 3) / 24)))"
  using assms
  by (simp add: render_expression_def Let_def update_conv' config_motion_last_expression_def)

lemma render_expression_Wink_L_negative:
  assumes "lastTpqn st = Fin q" and "d < 3 * q"
  shows "\<exists>w < 0. map_of (snd (render_expression st t (Fin d) pose0)) ''Wink_L'' = Some (Fin w)"
proof -
  from assms(2) have "min 1 ((d - q * 3) / 24) < 0" by simp
  with render_expression_Wink_L [OF assms(1)] show ?thesis by blast
qed

lemma render_expression_keeps_pose:
  assumes "lastTpqn st = Fin q" and "d \<le> 3 * q"
  shows "fst (render_expression st t (Fin d) pose0) = pose0"
  using assms
  by (simp add: render_expression_def Let_def)

end
